theory Spec2Isabelle
  imports Complex_Main "HOL-Library.Log_Nat" "HOL-Library.Sublist"
begin

section \<open>JavaScript values\<close>

text \<open>
  A JavaScript \<^verbatim>\<open>number\<close> is an IEEE binary64 value: a finite value (a rational), a NaN or an
  infinity. Every finite double is a rational, so a statement proved for every \<open>Finite q\<close>
  holds for every finite double. The sign of zero is not modelled: no comparison of the
  program distinguishes the two zeros.
\<close>

datatype number = Finite rat | NaN | PosInfinity | NegInfinity

text \<open>The relational operators \<^verbatim>\<open><\<close>, \<^verbatim>\<open><=\<close>, \<^verbatim>\<open>>\<close>, \<^verbatim>\<open>>=\<close> on numbers: false as soon as one side is NaN.\<close>

fun js_lt :: "number \<Rightarrow> number \<Rightarrow> bool" where
  "js_lt (Finite a) (Finite b) = (a < b)"
| "js_lt NaN y = False"
| "js_lt x NaN = False"
| "js_lt x NegInfinity = False"
| "js_lt PosInfinity y = False"
| "js_lt (Finite a) PosInfinity = True"
| "js_lt NegInfinity y = True"

fun js_le :: "number \<Rightarrow> number \<Rightarrow> bool" where
  "js_le (Finite a) (Finite b) = (a \<le> b)"
| "js_le NaN y = False"
| "js_le x NaN = False"
| "js_le NegInfinity y = True"
| "js_le x PosInfinity = True"
| "js_le (Finite a) NegInfinity = False"
| "js_le PosInfinity y = False"

definition js_gt :: "number \<Rightarrow> number \<Rightarrow> bool" where
  "js_gt x y = js_lt y x"

definition js_ge :: "number \<Rightarrow> number \<Rightarrow> bool" where
  "js_ge x y = js_le y x"

text \<open>
  An untyped value, as far as the program inspects one: \<^verbatim>\<open>typeof\<close>, truthiness and
  comparison with \<^verbatim>\<open>null\<close> and \<^verbatim>\<open>undefined\<close>. \<open>JObject\<close> stands for every value whose
  \<^verbatim>\<open>typeof\<close> is none of string, number, boolean and undefined and that is not \<^verbatim>\<open>null\<close>.
  A string is the list of the bytes of its UTF-8 encoding: concatenation, equality and
  emptiness are those of the program's strings, and the two non-ASCII characters of the
  source's literals are the byte lists \<open>en_dash\<close> and \<open>arrow\<close>. (A string with an unpaired
  surrogate has no UTF-8 encoding and is outside the model.)
\<close>

datatype jsval = JUndefined | JNull | JBool bool | JNum number | JStr string | JObject

definition en_dash :: string where
  "en_dash = [CHR 0xE2, CHR 0x80, CHR 0x93]"

definition arrow :: string where
  "arrow = [CHR 0xE2, CHR 0x86, CHR 0x92]"

section \<open>Double-precision arithmetic\<close>

text \<open>
  \<open>fl x\<close> is the double nearest to the rational \<open>x\<close> (ties to the even significand), for
  \<open>x\<close> in the range of the normal doubles: with \<open>2 ^ e \<le> \<bar>x\<bar> < 2 ^ (e + 1)\<close>, the doubles
  around \<open>x\<close> are the multiples of \<open>2 ^ (e - 52)\<close>. A product or a sum of two doubles in
  JavaScript is \<open>fl\<close> of the exact product or sum, and a decimal literal denotes \<open>fl\<close> of its
  value. The values computed by the scoring engine are zero or lie between \<open>1 / 4\<close> and
  \<open>128\<close> in absolute value, far from overflow and from the subnormal doubles.
\<close>

definition ilog2 :: "rat \<Rightarrow> int" where
  "ilog2 x = (if 1 \<le> x then bitlen \<lfloor>x\<rfloor> - 1 else - bitlen (\<lceil>1 / x\<rceil> - 1))"

definition round_even :: "rat \<Rightarrow> int" where
  "round_even m = (let f = \<lfloor>m\<rfloor>; r = m - of_int f in
     if r < 1 / 2 then f else if 1 / 2 < r then f + 1 else if even f then f else f + 1)"

definition fl :: "rat \<Rightarrow> rat" where
  "fl x = (if x = 0 then 0 else
     let u = power_int 2 (ilog2 \<bar>x\<bar> - 52)
     in sgn x * of_int (round_even (\<bar>x\<bar> / u)) * u)"

text \<open>\<^verbatim>\<open>Math.round\<close> on a finite double: the nearest integer, a tie going up.\<close>

definition Math_round :: "rat \<Rightarrow> int" where
  "Math_round x = \<lfloor>x + 1 / 2\<rfloor>"

section \<open>The input record\<close>

datatype PrimaryGoal =
    startup_funding
  | business_funding
  | debt_consolidation
  | improve_credit
  | lower_utilization
  | raise_score_fast
  | not_sure

text \<open>
  \<^verbatim>\<open>FundabilityInput\<close> of \<^verbatim>\<open>lib/validation.ts\<close>. A field of type \<^verbatim>\<open>number | null\<close> is an
  option. The four optional fields are copied by the validator without any check, so
  they hold arbitrary values.
\<close>

record FundabilityInput =
  first_name :: string
  last_name :: string
  email :: string
  credit_score :: "number option"
  revolving_utilization_pct :: number
  dti_pct :: "number option"
  inquiries_6m :: number
  oldest_account_years :: number
  open_tradelines :: number
  recent_derogs_24m :: number
  bk_or_major_event :: bool
  requested_amount :: number
  primary_goal :: PrimaryGoal
  estimated_home_value :: jsval
  mortgage_balance :: jsval
  source :: jsval
  external_contact_id :: jsval

section \<open>Subscores (\<^verbatim>\<open>lib/scoring-engine.ts\<close>)\<close>

fun calculateCreditScoreSubscore :: "number option \<Rightarrow> int" where
  "calculateCreditScoreSubscore None = 40"
| "calculateCreditScoreSubscore (Some score) =
     (if js_ge score (Finite 750) then 95
      else if js_ge score (Finite 720) then 90
      else if js_ge score (Finite 680) then 80
      else if js_ge score (Finite 640) then 65
      else if js_ge score (Finite 600) then 45
      else if js_ge score (Finite 550) then 30
      else 15)"

definition calculateUtilizationSubscore :: "number \<Rightarrow> int" where
  "calculateUtilizationSubscore utilization =
     (if js_lt utilization (Finite 10) then 95
      else if js_lt utilization (Finite 30) then 90
      else if js_lt utilization (Finite 50) then 75
      else if js_lt utilization (Finite 75) then 50
      else if js_lt utilization (Finite 90) then 30
      else 15)"

fun calculateDTISubscore :: "number option \<Rightarrow> int" where
  "calculateDTISubscore None = 55"
| "calculateDTISubscore (Some dti) =
     (if js_lt dti (Finite 25) then 95
      else if js_lt dti (Finite 35) then 85
      else if js_lt dti (Finite 45) then 70
      else if js_lt dti (Finite 55) then 45
      else 25)"

definition calculateInquirySubscore :: "number \<Rightarrow> int" where
  "calculateInquirySubscore inquiries =
     (if js_le inquiries (Finite 1) then 95
      else if js_le inquiries (Finite 3) then 80
      else if js_le inquiries (Finite 5) then 60
      else if js_le inquiries (Finite 8) then 35
      else 20)"

definition calculateDepthMixSubscore :: "number \<Rightarrow> number \<Rightarrow> int" where
  "calculateDepthMixSubscore oldestYears tradelines =
     (if js_ge oldestYears (Finite 10) \<and> js_ge tradelines (Finite 6) then 95
      else if js_ge oldestYears (Finite 7) \<and> js_ge tradelines (Finite 4) then 85
      else if js_ge oldestYears (Finite 3) \<and> js_ge tradelines (Finite 3) then 70
      else 45)"

definition calculatePenaltyPoints :: "bool \<Rightarrow> number \<Rightarrow> int" where
  "calculatePenaltyPoints bkOrMajorEvent recentDerogs =
     (let penalty0 = 0;
          penalty1 = (if bkOrMajorEvent then penalty0 - 25 else penalty0);
          penalty2 = (if js_ge recentDerogs (Finite 3) then penalty1 - 20
                      else if js_ge recentDerogs (Finite 1) then penalty1 - 10
                      else penalty1)
      in max penalty2 (- 35))"

section \<open>The weighted score\<close>

record Subscores =
  creditScoreSubscore :: int
  utilizationSubscore :: int
  dtiSubscore :: int
  inquirySubscore :: int
  depthMixSubscore :: int
  penaltyPoints :: int

text \<open>The literals of the \<^verbatim>\<open>weights\<close> object, each the double nearest to its decimal.\<close>

definition weights_credit :: rat where "weights_credit = fl (30 / 100)"
definition weights_utilization :: rat where "weights_utilization = fl (25 / 100)"
definition weights_dti :: rat where "weights_dti = fl (20 / 100)"
definition weights_inquiry :: rat where "weights_inquiry = fl (10 / 100)"
definition weights_depthMix :: rat where "weights_depthMix = fl (10 / 100)"
definition weights_penalty :: rat where "weights_penalty = fl (5 / 100)"

definition calculateWeightedScore :: "Subscores \<Rightarrow> int" where
  "calculateWeightedScore subscores =
     (let weightedSum =
            fl (fl (fl (fl (fl (of_int (creditScoreSubscore subscores) * weights_credit)
                          + fl (of_int (utilizationSubscore subscores) * weights_utilization))
                      + fl (of_int (dtiSubscore subscores) * weights_dti))
                  + fl (of_int (inquirySubscore subscores) * weights_inquiry))
              + fl (of_int (depthMixSubscore subscores) * weights_depthMix));
          rawScore = fl (weightedSum + of_int (penaltyPoints subscores))
      in max 0 (min 100 (Math_round rawScore)))"

section \<open>Tier and insights\<close>

record Tier =
  numeric :: int
  label :: string

definition determineTier :: "int \<Rightarrow> Tier" where
  "determineTier score =
     (if score \<ge> 85 then \<lparr>numeric = 1, label = ''Tier 1 '' @ en_dash @ '' Ready Now (Prime)''\<rparr>
      else if score \<ge> 70 then \<lparr>numeric = 2, label = ''Tier 2 '' @ en_dash @ '' Tune-Up Then Ready''\<rparr>
      else if score \<ge> 55 then \<lparr>numeric = 3, label = ''Tier 3 '' @ en_dash @ '' Optimization Required''\<rparr>
      else \<lparr>numeric = 4, label = ''Tier 4 '' @ en_dash @ '' Rehab / Long-Term Plan''\<rparr>)"

text \<open>
  \<^verbatim>\<open>generateStrengths\<close> and \<^verbatim>\<open>generateRisks\<close> take an object literal with four of the
  subscores; the model takes the four fields as arguments, in the order of the literal.
  Each \<^verbatim>\<open>push\<close> of the source is one step of the \<open>let\<close> chain.
\<close>

definition generateStrengths :: "int \<Rightarrow> int \<Rightarrow> int \<Rightarrow> int \<Rightarrow> string list" where
  "generateStrengths creditScoreSub utilizationSub dtiSub depthMixSub =
     (let strengths0 = [];
          strengths1 = (if creditScoreSub \<ge> 80
            then strengths0 @ [''Strong core credit score positioning you favorably with lenders'']
            else strengths0);
          strengths2 = (if utilizationSub \<ge> 80
            then strengths1 @ [''Low revolving utilization demonstrating strong credit management'']
            else strengths1);
          strengths3 = (if dtiSub \<ge> 80
            then strengths2 @ [''Healthy debt-to-income profile showing strong repayment capacity'']
            else strengths2);
          strengths4 = (if depthMixSub \<ge> 80
            then strengths3 @ [''Established credit history with good depth and account mix'']
            else strengths3);
          strengths5 = (if length strengths4 = 0
            then strengths4 @ [''Active credit profile with opportunity for strategic optimization'']
            else strengths4)
      in take 3 strengths5)"

definition generateRisks :: "int \<Rightarrow> int \<Rightarrow> int \<Rightarrow> int \<Rightarrow> string list" where
  "generateRisks utilizationSub dtiSub inquirySub penaltyPts =
     (let risks0 = [];
          risks1 = (if utilizationSub \<le> 50
            then risks0 @ [''High utilization is suppressing score and limiting available credit'']
            else risks0);
          risks2 = (if dtiSub \<le> 45
            then risks1 @ [''Elevated DTI ratio is constraining approval odds and loan amounts'']
            else risks1);
          risks3 = (if inquirySub \<le> 60
            then risks2 @ [''Recent inquiry activity is raising risk flags with underwriters'']
            else risks2);
          risks4 = (if penaltyPts < 0
            then risks3 @ [''Recent derogatory events are significantly impacting approval probability'']
            else risks3);
          risks5 = (if length risks4 = 0
            then risks4 @ [''Profile requires fine-tuning to maximize funding potential'']
            else risks4)
      in take 3 risks5)"

record ActionItem =
  priority :: int
  action :: string

text \<open>
  \<^verbatim>\<open>generateHighImpactActions\<close>. Two template literals print a number of the input; the
  conversion of a number to a string (\<^verbatim>\<open>Number::toString\<close>) is the parameter \<open>toStr\<close>.
  \<^verbatim>\<open>Array.prototype.sort\<close> is stable and the comparator \<^verbatim>\<open>b.priority - a.priority\<close> orders
  by descending priority: \<open>sort_key\<close>, an insertion sort that keeps equal keys in order,
  on the negated priority.
\<close>

definition generateHighImpactActions ::
  "(number \<Rightarrow> string) \<Rightarrow> FundabilityInput \<Rightarrow> Subscores \<Rightarrow> string list" where
  "generateHighImpactActions toStr input subscores =
     (let actions0 = [];
          actions1 = (if utilizationSubscore subscores \<le> 75
            then actions0 @ [\<lparr>priority = (if utilizationSubscore subscores \<le> 50 then 100 else 80),
              action = ''Pay down revolving balances to reduce utilization below 30% - current ''
                @ toStr (revolving_utilization_pct input) @ ''% is limiting approvals''\<rparr>]
            else actions0);
          actions2 = (if dtiSubscore subscores \<le> 70
            then actions1 @ [\<lparr>priority = (if dtiSubscore subscores \<le> 45 then 95 else 75),
              action = ''Target paying off 1-2 highest monthly payment accounts to improve DTI and boost approval odds''\<rparr>]
            else actions1);
          actions3 = (if inquirySubscore subscores \<le> 60
            then actions2 @ [\<lparr>priority = 85,
              action = ''Avoid new credit applications for 60-90 days to let ''
                @ toStr (inquiries_6m input) @ '' recent inquiries age off impact period''\<rparr>]
            else actions2);
          actions4 = (if penaltyPoints subscores < 0
            then actions3 @ [\<lparr>priority = 90,
              action = ''Review and dispute any inaccurate derogatory marks; negotiate payment-for-deletion on valid collections''\<rparr>]
            else actions3);
          actions5 = (if depthMixSubscore subscores \<le> 70
            then actions4 @ [\<lparr>priority = 60,
              action = ''Add 1-2 new tradelines (authorized user or credit builder loan) to strengthen credit mix and depth''\<rparr>]
            else actions4);
          actions6 = (if creditScoreSubscore subscores \<le> 65
            then actions5 @ [\<lparr>priority = 70,
              action = ''Focus on on-time payments for next 6 months - payment history is the #1 score driver''\<rparr>]
            else actions5);
          actions7 = (if js_ge (revolving_utilization_pct input) (Finite 50)
                         \<and> creditScoreSubscore subscores \<ge> 65
            then actions6 @ [\<lparr>priority = 85,
              action = ''Consider balance transfer or consolidation product to restructure expensive revolving debt at lower rates''\<rparr>]
            else actions6);
          sorted_actions = sort_key (\<lambda>a. - priority a) actions7
      in map action (take 5 sorted_actions))"

section \<open>Funding ranges and goal path\<close>

definition calculateFundingRange :: "int \<Rightarrow> string" where
  "calculateFundingRange tier =
     (if tier = 1 then ''Moderate'' @ en_dash @ ''High ($50K'' @ en_dash @ ''$150K+)''
      else if tier = 2 then ''Moderate ($25K'' @ en_dash @ ''$75K)''
      else if tier = 3 then ''Low'' @ en_dash @ ''Moderate ($10K'' @ en_dash @ ''$50K)''
      else if tier = 4 then ''Low ($5K'' @ en_dash @ ''$25K)''
      else ''Low'')"

text \<open>The second table, of \<^verbatim>\<open>calculateOptimizedFundingRange\<close>: the \<^verbatim>\<open>switch\<close> on the bumped tier.\<close>

definition optimizedRangeTable :: "int \<Rightarrow> string" where
  "optimizedRangeTable optimizedTier =
     (if optimizedTier = 1 then ''High ($75K'' @ en_dash @ ''$200K+)''
      else if optimizedTier = 2 then ''Moderate'' @ en_dash @ ''High ($50K'' @ en_dash @ ''$125K)''
      else if optimizedTier = 3 then ''Moderate ($25K'' @ en_dash @ ''$75K)''
      else if optimizedTier = 4 then ''Low'' @ en_dash @ ''Moderate ($15K'' @ en_dash @ ''$50K)''
      else ''Moderate'')"

definition calculateOptimizedFundingRange :: "int \<Rightarrow> int \<Rightarrow> int \<Rightarrow> int \<Rightarrow> string" where
  "calculateOptimizedFundingRange tier utilization dti inquiry =
     (let hasOptimizationPotential = (utilization \<le> 75 \<or> dti \<le> 70 \<or> inquiry \<le> 60)
      in if \<not> hasOptimizationPotential then calculateFundingRange tier
         else let optimizedTier = max 1 (tier - 1) in optimizedRangeTable optimizedTier)"

fun pathMap :: "int \<Rightarrow> PrimaryGoal \<Rightarrow> string" where
  "pathMap tier startup_funding =
     (if tier \<ge> 3
      then ''Credit optimization '' @ arrow @ '' secured/alternative startup capital '' @ arrow
             @ '' traditional business funding''
      else ''Direct path to startup funding with credit-backed business lines and term loans'')"
| "pathMap tier business_funding =
     (if tier \<ge> 3
      then ''Strengthen credit profile '' @ arrow @ '' explore revenue-based or collateral-backed options ''
             @ arrow @ '' scale to unsecured lines''
      else ''Ready for unsecured business lines, equipment financing, and SBA products'')"
| "pathMap tier debt_consolidation =
     (if tier \<ge> 3
      then ''Targeted consolidation of high-APR debt '' @ arrow @ '' rebuild utilization '' @ arrow
             @ '' qualify for larger business funding''
      else ''Consolidate with balance transfer or personal loan '' @ arrow
             @ '' leverage improved profile for business capital'')"
| "pathMap tier improve_credit =
     ''Execute high-impact actions over 90-180 days '' @ arrow
       @ '' re-position for prime funding opportunities''"
| "pathMap tier lower_utilization =
     (if tier \<ge> 3
      then ''Pay down revolving debt or secure consolidation loan '' @ arrow
             @ '' improved scores unlock better funding products''
      else ''Strategic utilization reduction '' @ arrow
             @ '' immediate access to expanded credit lines and funding'')"
| "pathMap tier raise_score_fast =
     ''Focus on rapid-impact tactics: utilization reduction, dispute errors, add authorized user tradelines''"
| "pathMap tier not_sure =
     (if tier \<ge> 3
      then ''Strengthen fundability foundation '' @ arrow
             @ '' explore funding options aligned with business goals''
      else ''Strong fundability position - evaluate business vs personal funding needs and optimal structure'')"

text \<open>\<^verbatim>\<open>pathMap[goal] || '...'\<close>: the fallback is taken when the entry is the empty string.\<close>

definition generateGoalPath :: "PrimaryGoal \<Rightarrow> int \<Rightarrow> string" where
  "generateGoalPath goal tier =
     (if pathMap tier goal \<noteq> [] then pathMap tier goal
      else ''Custom funding path based on profile optimization and business objectives'')"

section \<open>The snapshot\<close>

record SnapshotSubscores =
  credit_score_subscore :: int
  utilization_subscore :: int
  dti_subscore :: int
  inquiry_subscore :: int
  depth_mix_subscore :: int
  penalty_points :: int

record SnapshotFlags =
  missing_credit_score :: bool
  missing_utilization :: bool
  missing_dti :: bool
  high_risk_profile :: bool

record SnapshotMeta =
  version :: string
  generated_at :: string

record FundabilitySnapshot =
  fundability_score :: int
  fundability_tier_numeric :: int
  fundability_tier_label :: string
  subscores :: SnapshotSubscores
  key_strengths :: "string list"
  key_risks :: "string list"
  high_impact_actions :: "string list"
  funding_range_now :: string
  funding_range_after_optimization :: string
  goal_path :: string
  flags :: SnapshotFlags
  meta :: SnapshotMeta

text \<open>
  \<^verbatim>\<open>calculateFundabilitySnapshot\<close>. Besides the input it reads the clock:
  \<open>now\<close> is the value of \<^verbatim>\<open>new Date().toISOString()\<close> at the call.
\<close>

definition calculateFundabilitySnapshot ::
  "(number \<Rightarrow> string) \<Rightarrow> string \<Rightarrow> FundabilityInput \<Rightarrow> FundabilitySnapshot" where
  "calculateFundabilitySnapshot toStr now input =
     (let creditScoreSub = calculateCreditScoreSubscore (credit_score input);
          utilizationSub = calculateUtilizationSubscore (revolving_utilization_pct input);
          dtiSub = calculateDTISubscore (dti_pct input);
          inquirySub = calculateInquirySubscore (inquiries_6m input);
          depthMixSub = calculateDepthMixSubscore (oldest_account_years input) (open_tradelines input);
          penaltyPts = calculatePenaltyPoints (bk_or_major_event input) (recent_derogs_24m input);
          allSubscores = \<lparr>creditScoreSubscore = creditScoreSub, utilizationSubscore = utilizationSub,
            dtiSubscore = dtiSub, inquirySubscore = inquirySub, depthMixSubscore = depthMixSub,
            penaltyPoints = penaltyPts\<rparr>;
          fundabilityScore = calculateWeightedScore allSubscores;
          tier = determineTier fundabilityScore;
          strengths = generateStrengths creditScoreSub utilizationSub dtiSub depthMixSub;
          risks = generateRisks utilizationSub dtiSub inquirySub penaltyPts;
          actions = generateHighImpactActions toStr input allSubscores;
          fundingRangeNow = calculateFundingRange (numeric tier);
          fundingRangeOptimized =
            calculateOptimizedFundingRange (numeric tier) utilizationSub dtiSub inquirySub;
          goalPath = generateGoalPath (primary_goal input) (numeric tier);
          snapshotFlags = \<lparr>missing_credit_score = (credit_score input = None),
            missing_utilization = False,
            missing_dti = (dti_pct input = None),
            high_risk_profile = (numeric tier = 4 \<or> penaltyPts \<le> - 20)\<rparr>
      in \<lparr>fundability_score = fundabilityScore,
          fundability_tier_numeric = numeric tier,
          fundability_tier_label = label tier,
          subscores = \<lparr>credit_score_subscore = creditScoreSub,
            utilization_subscore = utilizationSub,
            dti_subscore = dtiSub,
            inquiry_subscore = inquirySub,
            depth_mix_subscore = depthMixSub,
            penalty_points = penaltyPts\<rparr>,
          key_strengths = strengths,
          key_risks = risks,
          high_impact_actions = actions,
          funding_range_now = fundingRangeNow,
          funding_range_after_optimization = fundingRangeOptimized,
          goal_path = goalPath,
          flags = snapshotFlags,
          meta = \<lparr>version = ''fs_engine_v1.0'', generated_at = now\<rparr>\<rparr>)"

section \<open>The validator (\<^verbatim>\<open>lib/validation.ts\<close>)\<close>

text \<open>
  The validator takes a value of type \<^verbatim>\<open>any\<close> and reads its properties. The model takes an
  object: a function from property names to values, \<open>JUndefined\<close> for a property that is
  absent. (Reading a property of \<^verbatim>\<open>null\<close> or \<^verbatim>\<open>undefined\<close> throws; such a body is outside
  the model.)
\<close>

type_synonym body = "string \<Rightarrow> jsval"

definition truthy :: "jsval \<Rightarrow> bool" where
  "truthy v = (case v of
       JUndefined \<Rightarrow> False
     | JNull \<Rightarrow> False
     | JBool b \<Rightarrow> b
     | JNum n \<Rightarrow> n \<noteq> NaN \<and> n \<noteq> Finite 0
     | JStr s \<Rightarrow> s \<noteq> []
     | JObject \<Rightarrow> True)"

definition is_string :: "jsval \<Rightarrow> bool" where
  "is_string v = (case v of JStr s \<Rightarrow> True | _ \<Rightarrow> False)"

definition is_number :: "jsval \<Rightarrow> bool" where
  "is_number v = (case v of JNum n \<Rightarrow> True | _ \<Rightarrow> False)"

definition is_boolean :: "jsval \<Rightarrow> bool" where
  "is_boolean v = (case v of JBool b \<Rightarrow> True | _ \<Rightarrow> False)"

text \<open>\<^verbatim>\<open>a ?? b\<close>\<close>

definition nullish_or :: "jsval \<Rightarrow> jsval \<Rightarrow> jsval" where
  "nullish_or a b = (if a = JNull \<or> a = JUndefined then b else a)"

text \<open>
  The values read at a type that an earlier check has established. The last case of
  each function is never reached on the path that builds the validated record
  (lemma \<open>validateInput_accepts\<close>).
\<close>

definition as_string :: "jsval \<Rightarrow> string" where
  "as_string v = (case v of JStr s \<Rightarrow> s | _ \<Rightarrow> [])"

definition as_number :: "jsval \<Rightarrow> number" where
  "as_number v = (case v of JNum n \<Rightarrow> n | _ \<Rightarrow> NaN)"

definition as_boolean :: "jsval \<Rightarrow> bool" where
  "as_boolean v = (case v of JBool b \<Rightarrow> b | _ \<Rightarrow> False)"

definition as_number_or_null :: "jsval \<Rightarrow> number option" where
  "as_number_or_null v = (case v of JNum n \<Rightarrow> Some n | _ \<Rightarrow> None)"

definition Number_isInteger :: "jsval \<Rightarrow> bool" where
  "Number_isInteger v = (case v of JNum (Finite q) \<Rightarrow> of_int \<lfloor>q\<rfloor> = q | _ \<Rightarrow> False)"

definition goal_name :: "PrimaryGoal \<Rightarrow> string" where
  "goal_name g = (case g of
       startup_funding \<Rightarrow> ''startup_funding''
     | business_funding \<Rightarrow> ''business_funding''
     | debt_consolidation \<Rightarrow> ''debt_consolidation''
     | improve_credit \<Rightarrow> ''improve_credit''
     | lower_utilization \<Rightarrow> ''lower_utilization''
     | raise_score_fast \<Rightarrow> ''raise_score_fast''
     | not_sure \<Rightarrow> ''not_sure'')"

definition validGoals :: "PrimaryGoal list" where
  "validGoals = [startup_funding, business_funding, debt_consolidation, improve_credit,
     lower_utilization, raise_score_fast, not_sure]"

text \<open>\<^verbatim>\<open>validGoals.includes(v)\<close>: \<open>v\<close> is one of the seven strings.\<close>

definition includes_goal :: "jsval \<Rightarrow> bool" where
  "includes_goal v = (case v of JStr s \<Rightarrow> s \<in> set (map goal_name validGoals) | _ \<Rightarrow> False)"

definition as_goal :: "jsval \<Rightarrow> PrimaryGoal" where
  "as_goal v = (case find (\<lambda>g. JStr (goal_name g) = v) validGoals of Some g \<Rightarrow> g | None \<Rightarrow> not_sure)"

fun join :: "string \<Rightarrow> string list \<Rightarrow> string" where
  "join sep [] = []"
| "join sep [x] = x"
| "join sep (x # y # ys) = x @ sep @ join sep (y # ys)"

text \<open>
  \<^verbatim>\<open>/^[^\s@]+@[^\s@]+\.[^\s@]+$/\<close>. The class \<^verbatim>\<open>\s\<close> holds the white space and line
  terminator characters of ECMAScript: U+0009 to U+000D, U+0020, U+00A0, U+1680, U+2000
  to U+200A, U+2028, U+2029, U+202F, U+205F, U+3000 and U+FEFF; \<open>space_encodings\<close> lists
  their UTF-8 encodings. In a well-formed UTF-8 string an encoding occurs only where
  its character stands, and no encoding holds the byte of \<^verbatim>\<open>@\<close> or of the dot. The string
  matches when its part before the first \<^verbatim>\<open>@\<close> is not empty, the part after it holds no
  further \<^verbatim>\<open>@\<close> and a dot that is neither its first nor its last character, and no white
  space occurs in the string.
\<close>

definition space_encodings :: "string list" where
  "space_encodings =
     [[CHR 0x09], [CHR 0x0A], [CHR 0x0B], [CHR 0x0C], [CHR 0x0D], [CHR 0x20],
      [CHR 0xC2, CHR 0xA0], [CHR 0xE1, CHR 0x9A, CHR 0x80],
      [CHR 0xE2, CHR 0x80, CHR 0x80], [CHR 0xE2, CHR 0x80, CHR 0x81],
      [CHR 0xE2, CHR 0x80, CHR 0x82], [CHR 0xE2, CHR 0x80, CHR 0x83],
      [CHR 0xE2, CHR 0x80, CHR 0x84], [CHR 0xE2, CHR 0x80, CHR 0x85],
      [CHR 0xE2, CHR 0x80, CHR 0x86], [CHR 0xE2, CHR 0x80, CHR 0x87],
      [CHR 0xE2, CHR 0x80, CHR 0x88], [CHR 0xE2, CHR 0x80, CHR 0x89],
      [CHR 0xE2, CHR 0x80, CHR 0x8A], [CHR 0xE2, CHR 0x80, CHR 0xA8],
      [CHR 0xE2, CHR 0x80, CHR 0xA9], [CHR 0xE2, CHR 0x80, CHR 0xAF],
      [CHR 0xE2, CHR 0x81, CHR 0x9F], [CHR 0xE3, CHR 0x80, CHR 0x80],
      [CHR 0xEF, CHR 0xBB, CHR 0xBF]]"

definition contains_space :: "string \<Rightarrow> bool" where
  "contains_space s = (\<exists>w \<in> set space_encodings. sublist w s)"

definition isValidEmail :: "string \<Rightarrow> bool" where
  "isValidEmail s =
     (let localPart = takeWhile (\<lambda>c. c \<noteq> CHR ''@'') s;
          rest = dropWhile (\<lambda>c. c \<noteq> CHR ''@'') s
      in localPart \<noteq> [] \<and> \<not> contains_space s \<and>
         (case rest of
            [] \<Rightarrow> False
          | c # domainPart \<Rightarrow> CHR ''@'' \<notin> set domainPart
                               \<and> CHR ''.'' \<in> set (butlast (tl domainPart))))"

text \<open>
  The language of the regular expression, read off it: three runs \<open>a\<close>, \<open>b\<close>, \<open>c\<close> of one
  or more characters that are neither white space nor \<^verbatim>\<open>@\<close>, joined by an \<^verbatim>\<open>@\<close> and a dot
  (lemma \<open>isValidEmail_pattern\<close>: \<open>isValidEmail\<close> decides it).
\<close>

definition plain :: "string \<Rightarrow> bool" where
  "plain x = (x \<noteq> [] \<and> CHR ''@'' \<notin> set x \<and> \<not> contains_space x)"

definition email_pattern :: "string \<Rightarrow> bool" where
  "email_pattern s = (\<exists>a b c. s = a @ ''@'' @ b @ ''.'' @ c \<and> plain a \<and> plain b \<and> plain c)"

text \<open>\<^verbatim>\<open>if (c) { errors.push(m) }\<close>\<close>

definition push_when :: "bool \<Rightarrow> string \<Rightarrow> string list \<Rightarrow> string list" where
  "push_when c m errs = (if c then errs @ [m] else errs)"

record ValidationResult =
  valid :: bool
  data :: "FundabilityInput option"
  errors :: "string list option"

definition validateInput :: "body \<Rightarrow> ValidationResult" where
  "validateInput b =
     (let errors0 = [];
          errors1 = push_when (\<not> truthy (b ''first_name'') \<or> \<not> is_string (b ''first_name''))
            (''first_name is required and must be a string'') errors0;
          errors2 = push_when (\<not> truthy (b ''last_name'') \<or> \<not> is_string (b ''last_name''))
            (''last_name is required and must be a string'') errors1;
          errors3 = push_when (\<not> truthy (b ''email'') \<or> \<not> is_string (b ''email'')
                        \<or> \<not> isValidEmail (as_string (b ''email'')))
            (''email is required and must be a valid email address'') errors2;
          errors4 = (if b ''credit_score'' \<noteq> JNull \<and> b ''credit_score'' \<noteq> JUndefined
            then push_when (\<not> is_number (b ''credit_score'')
                     \<or> js_lt (as_number (b ''credit_score'')) (Finite 300)
                     \<or> js_gt (as_number (b ''credit_score'')) (Finite 850))
                   (''credit_score must be between 300 and 850, or null'') errors3
            else errors3);
          errors5 = push_when (\<not> is_number (b ''revolving_utilization_pct'')
                        \<or> js_lt (as_number (b ''revolving_utilization_pct'')) (Finite 0)
                        \<or> js_gt (as_number (b ''revolving_utilization_pct'')) (Finite 100))
            (''revolving_utilization_pct is required and must be between 0 and 100'') errors4;
          errors6 = (if b ''dti_pct'' \<noteq> JNull \<and> b ''dti_pct'' \<noteq> JUndefined
            then push_when (\<not> is_number (b ''dti_pct'')
                     \<or> js_lt (as_number (b ''dti_pct'')) (Finite 0)
                     \<or> js_gt (as_number (b ''dti_pct'')) (Finite 100))
                   (''dti_pct must be between 0 and 100, or null'') errors5
            else errors5);
          inquiries = nullish_or (b ''inquiries_6m'') (JNum (Finite 0));
          errors7 = push_when (\<not> is_number inquiries \<or> js_lt (as_number inquiries) (Finite 0)
                        \<or> \<not> Number_isInteger inquiries)
            (''inquiries_6m must be a non-negative integer'') errors6;
          oldestYears = nullish_or (b ''oldest_account_years'') (JNum (Finite 0));
          errors8 = push_when (\<not> is_number oldestYears \<or> js_lt (as_number oldestYears) (Finite 0))
            (''oldest_account_years must be a non-negative number'') errors7;
          errors9 = push_when (\<not> is_number (b ''open_tradelines'')
                        \<or> js_lt (as_number (b ''open_tradelines'')) (Finite 0)
                        \<or> \<not> Number_isInteger (b ''open_tradelines''))
            (''open_tradelines is required and must be a non-negative integer'') errors8;
          recentDerogs = nullish_or (b ''recent_derogs_24m'') (JNum (Finite 0));
          errors10 = push_when (\<not> is_number recentDerogs \<or> js_lt (as_number recentDerogs) (Finite 0)
                         \<or> \<not> Number_isInteger recentDerogs)
            (''recent_derogs_24m must be a non-negative integer'') errors9;
          bkOrMajorEvent = nullish_or (b ''bk_or_major_event'') (JBool False);
          errors11 = push_when (\<not> is_boolean bkOrMajorEvent)
            (''bk_or_major_event must be a boolean'') errors10;
          errors12 = push_when (\<not> is_number (b ''requested_amount'')
                         \<or> js_le (as_number (b ''requested_amount'')) (Finite 0))
            (''requested_amount is required and must be a positive number'') errors11;
          errors13 = push_when (\<not> truthy (b ''primary_goal'') \<or> \<not> includes_goal (b ''primary_goal''))
            (''primary_goal is required and must be one of: ''
                               @ join '', '' (map goal_name validGoals)) errors12
      in if length errors13 > 0 then \<lparr>valid = False, data = None, errors = Some errors13\<rparr>
         else \<lparr>valid = True,
                data = Some \<lparr>first_name = as_string (b ''first_name''),
                  last_name = as_string (b ''last_name''),
                  email = as_string (b ''email''),
                  credit_score = as_number_or_null (nullish_or (b ''credit_score'') JNull),
                  revolving_utilization_pct = as_number (b ''revolving_utilization_pct''),
                  dti_pct = as_number_or_null (nullish_or (b ''dti_pct'') JNull),
                  inquiries_6m = as_number inquiries,
                  oldest_account_years = as_number oldestYears,
                  open_tradelines = as_number (b ''open_tradelines''),
                  recent_derogs_24m = as_number recentDerogs,
                  bk_or_major_event = as_boolean bkOrMajorEvent,
                  requested_amount = as_number (b ''requested_amount''),
                  primary_goal = as_goal (b ''primary_goal''),
                  estimated_home_value = nullish_or (b ''estimated_home_value'') JNull,
                  mortgage_balance = nullish_or (b ''mortgage_balance'') JNull,
                  source = b ''source'',
                  external_contact_id = b ''external_contact_id''\<rparr>,
                errors = None\<rparr>)"

section \<open>The batch runner (\<^verbatim>\<open>lib/batch-processor.ts\<close>)\<close>

text \<open>
  \<^verbatim>\<open>processBatch\<close> is modelled for a list of clients of the declared type
  \<^verbatim>\<open>FundabilityInput[]\<close> and the default configuration (chunks of 10, no webhooks, callbacks
  that do nothing). The delay between chunks and \<^verbatim>\<open>duration_ms\<close> are left out. The calls of a
  chunk do not interact and \<^verbatim>\<open>Promise.all\<close> returns their results in the order of the chunk.
  The clock reading of the call for the client at position \<open>k\<close> is \<open>clock k\<close>.
\<close>

text \<open>The client as the object that the validator reads.\<close>

definition to_body :: "FundabilityInput \<Rightarrow> body" where
  "to_body c k =
     (if k = ''first_name'' then JStr (first_name c)
      else if k = ''last_name'' then JStr (last_name c)
      else if k = ''email'' then JStr (email c)
      else if k = ''credit_score'' then (case credit_score c of None \<Rightarrow> JNull | Some n \<Rightarrow> JNum n)
      else if k = ''revolving_utilization_pct'' then JNum (revolving_utilization_pct c)
      else if k = ''dti_pct'' then (case dti_pct c of None \<Rightarrow> JNull | Some n \<Rightarrow> JNum n)
      else if k = ''inquiries_6m'' then JNum (inquiries_6m c)
      else if k = ''oldest_account_years'' then JNum (oldest_account_years c)
      else if k = ''open_tradelines'' then JNum (open_tradelines c)
      else if k = ''recent_derogs_24m'' then JNum (recent_derogs_24m c)
      else if k = ''bk_or_major_event'' then JBool (bk_or_major_event c)
      else if k = ''requested_amount'' then JNum (requested_amount c)
      else if k = ''primary_goal'' then JStr (goal_name (primary_goal c))
      else if k = ''estimated_home_value'' then estimated_home_value c
      else if k = ''mortgage_balance'' then mortgage_balance c
      else if k = ''source'' then source c
      else if k = ''external_contact_id'' then external_contact_id c
      else JUndefined)"

text \<open>
  \<^verbatim>\<open>validationErrors.length\<close>, where \<^verbatim>\<open>validationErrors\<close> is the object that \<^verbatim>\<open>validateInput\<close>
  returns: the object has the properties \<^verbatim>\<open>valid\<close>, \<^verbatim>\<open>data\<close> and \<^verbatim>\<open>errors\<close> and no other,
  so the property \<^verbatim>\<open>length\<close> reads as \<^verbatim>\<open>undefined\<close>.
\<close>

definition length_property :: "ValidationResult \<Rightarrow> jsval" where
  "length_property r = JUndefined"

text \<open>
  \<^verbatim>\<open>ToNumber\<close>, as far as the program applies it: to \<^verbatim>\<open>undefined\<close>. The conversion of a string
  or an object is not modelled (NaN stands for it).
\<close>

definition ToNumber :: "jsval \<Rightarrow> number" where
  "ToNumber v = (case v of
       JUndefined \<Rightarrow> NaN
     | JNull \<Rightarrow> Finite 0
     | JBool b \<Rightarrow> (if b then Finite 1 else Finite 0)
     | JNum n \<Rightarrow> n
     | JStr s \<Rightarrow> NaN
     | JObject \<Rightarrow> NaN)"

datatype ItemResult =
    Success string string FundabilitySnapshot
  | Failed string string string

fun is_success :: "ItemResult \<Rightarrow> bool" where
  "is_success (Success name mail r) = True"
| "is_success (Failed name mail e) = False"

text \<open>
  The callback of \<^verbatim>\<open>chunk.map\<close>. The \<^verbatim>\<open>throw\<close> of the source would first evaluate
  \<^verbatim>\<open>validationErrors.join(', ')\<close>, which is not a function of that object: the error that
  the \<^verbatim>\<open>catch\<close> clause reports on that path is the TypeError of the call.
\<close>

definition processClient :: "(number \<Rightarrow> string) \<Rightarrow> string \<Rightarrow> FundabilityInput \<Rightarrow> ItemResult" where
  "processClient toStr now client =
     (let validationErrors = validateInput (to_body client);
          name = first_name client @ '' '' @ last_name client
      in if js_gt (ToNumber (length_property validationErrors)) (Finite 0)
         then Failed name (email client) ''validationErrors.join is not a function''
         else Success name (email client) (calculateFundabilitySnapshot toStr now client))"

function chunksOf10 :: "'a list \<Rightarrow> 'a list list" where
  "chunksOf10 xs = (if xs = [] then [] else take 10 xs # chunksOf10 (drop 10 xs))"
  by pat_completeness auto
termination
  by (relation "measure length") auto

declare chunksOf10.simps [simp del]

record BatchSummary =
  total :: nat
  successful :: nat
  failed_count :: nat

record BatchResult =
  success :: "ItemResult list"
  failed :: "ItemResult list"
  summary :: BatchSummary

text \<open>One chunk: the results of its calls, sorted into the two lists in order.\<close>

definition processChunk ::
  "(number \<Rightarrow> string) \<Rightarrow> (nat \<Rightarrow> string) \<Rightarrow> ItemResult list \<times> ItemResult list
     \<Rightarrow> (nat \<times> FundabilityInput) list \<Rightarrow> ItemResult list \<times> ItemResult list" where
  "processChunk toStr clock acc chunk =
     (let results = map (\<lambda>(k, client). processClient toStr (clock k) client) chunk
      in foldl (\<lambda>(succ, fail) r. if is_success r then (succ @ [r], fail) else (succ, fail @ [r]))
           acc results)"

definition processBatch ::
  "(number \<Rightarrow> string) \<Rightarrow> (nat \<Rightarrow> string) \<Rightarrow> FundabilityInput list \<Rightarrow> BatchResult" where
  "processBatch toStr clock clients =
     (let chunks = chunksOf10 (zip [0 ..< length clients] clients);
          (succ, fail) = foldl (processChunk toStr clock) ([], []) chunks
      in \<lparr>success = succ, failed = fail,
          summary = \<lparr>total = length clients, successful = length succ, failed_count = length fail\<rparr>\<rparr>)"

section \<open>The constraints on an input record\<close>

text \<open>Conditions on the value of one property.\<close>

definition absent :: "jsval \<Rightarrow> bool" where
  "absent v = (v = JNull \<or> v = JUndefined)"

definition non_empty_string :: "jsval \<Rightarrow> bool" where
  "non_empty_string v = (case v of JStr s \<Rightarrow> s \<noteq> [] | _ \<Rightarrow> False)"

definition email_address :: "jsval \<Rightarrow> bool" where
  "email_address v = (case v of JStr s \<Rightarrow> email_pattern s | _ \<Rightarrow> False)"

definition number_between :: "rat \<Rightarrow> rat \<Rightarrow> jsval \<Rightarrow> bool" where
  "number_between lo hi v =
     (case v of JNum n \<Rightarrow> js_le (Finite lo) n \<and> js_le n (Finite hi) | _ \<Rightarrow> False)"

definition integer_between :: "rat \<Rightarrow> rat \<Rightarrow> jsval \<Rightarrow> bool" where
  "integer_between lo hi v =
     (case v of JNum (Finite q) \<Rightarrow> lo \<le> q \<and> q \<le> hi \<and> of_int \<lfloor>q\<rfloor> = q | _ \<Rightarrow> False)"

definition non_negative_number :: "jsval \<Rightarrow> bool" where
  "non_negative_number v = (case v of JNum n \<Rightarrow> js_le (Finite 0) n | _ \<Rightarrow> False)"

definition non_negative_integer :: "jsval \<Rightarrow> bool" where
  "non_negative_integer v = (case v of JNum (Finite q) \<Rightarrow> 0 \<le> q \<and> of_int \<lfloor>q\<rfloor> = q | _ \<Rightarrow> False)"

definition positive_number :: "jsval \<Rightarrow> bool" where
  "positive_number v = (case v of JNum n \<Rightarrow> js_lt (Finite 0) n | _ \<Rightarrow> False)"

definition permitted_goal :: "jsval \<Rightarrow> bool" where
  "permitted_goal v = (v \<in> set [JStr ''startup_funding'', JStr ''business_funding'',
     JStr ''debt_consolidation'', JStr ''improve_credit'', JStr ''lower_utilization'',
     JStr ''raise_score_fast'', JStr ''not_sure''])"

text \<open>
  The constraints as section 3 of the specification enumerates them, a property and the
  condition on its value: the identity fields are strings; the credit score is an
  integer from 300 to 850 or absent; the utilization percent is from 0 to 100 and
  required; the DTI percent is from 0 to 100 or absent; the inquiry count, the tradeline
  count and the derogatory count are non-negative integers, the oldest account age a
  non-negative number (the tradeline count required, the others with a default); the
  flag is a boolean with a default; the requested amount is a positive number; the
  primary goal is one of seven values; the home value and the mortgage balance are
  numbers or absent. \<open>spec_violations\<close> lists the properties whose constraint an object
  violates.
\<close>

definition spec_constraints :: "(string \<times> (jsval \<Rightarrow> bool)) list" where
  "spec_constraints =
     [(''first_name'', is_string),
      (''last_name'', is_string),
      (''email'', is_string),
      (''credit_score'', (\<lambda>v. absent v \<or> integer_between 300 850 v)),
      (''revolving_utilization_pct'', number_between 0 100),
      (''dti_pct'', (\<lambda>v. absent v \<or> number_between 0 100 v)),
      (''inquiries_6m'', (\<lambda>v. absent v \<or> non_negative_integer v)),
      (''oldest_account_years'', (\<lambda>v. absent v \<or> non_negative_number v)),
      (''open_tradelines'', non_negative_integer),
      (''recent_derogs_24m'', (\<lambda>v. absent v \<or> non_negative_integer v)),
      (''bk_or_major_event'', (\<lambda>v. absent v \<or> is_boolean v)),
      (''requested_amount'', positive_number),
      (''primary_goal'', permitted_goal),
      (''estimated_home_value'', (\<lambda>v. absent v \<or> is_number v)),
      (''mortgage_balance'', (\<lambda>v. absent v \<or> is_number v))]"

definition spec_violations :: "body \<Rightarrow> string list" where
  "spec_violations b = map fst (filter (\<lambda>c. \<not> snd c (b (fst c))) spec_constraints)"

text \<open>
  The constraints of the amended claim C7, each with the message for an object that
  violates it. They differ from those of section 3 in four places: a first or last name
  must be a non-empty string; the email must have the form \<open>a@b.c\<close> without white space;
  the credit score need not be an integer; the home value and the mortgage balance have
  no constraint.
\<close>

definition constraints :: "(string \<times> (jsval \<Rightarrow> bool) \<times> string) list" where
  "constraints =
     [(''first_name'', non_empty_string, ''first_name is required and must be a string''),
      (''last_name'', non_empty_string, ''last_name is required and must be a string''),
      (''email'', email_address, ''email is required and must be a valid email address''),
      (''credit_score'', (\<lambda>v. absent v \<or> number_between 300 850 v),
         ''credit_score must be between 300 and 850, or null''),
      (''revolving_utilization_pct'', number_between 0 100,
         ''revolving_utilization_pct is required and must be between 0 and 100''),
      (''dti_pct'', (\<lambda>v. absent v \<or> number_between 0 100 v),
         ''dti_pct must be between 0 and 100, or null''),
      (''inquiries_6m'', (\<lambda>v. absent v \<or> non_negative_integer v),
         ''inquiries_6m must be a non-negative integer''),
      (''oldest_account_years'', (\<lambda>v. absent v \<or> non_negative_number v),
         ''oldest_account_years must be a non-negative number''),
      (''open_tradelines'', non_negative_integer,
         ''open_tradelines is required and must be a non-negative integer''),
      (''recent_derogs_24m'', (\<lambda>v. absent v \<or> non_negative_integer v),
         ''recent_derogs_24m must be a non-negative integer''),
      (''bk_or_major_event'', (\<lambda>v. absent v \<or> is_boolean v),
         ''bk_or_major_event must be a boolean''),
      (''requested_amount'', positive_number,
         ''requested_amount is required and must be a positive number''),
      (''primary_goal'', permitted_goal,
         ''primary_goal is required and must be one of: startup_funding, business_funding, debt_consolidation, improve_credit, lower_utilization, raise_score_fast, not_sure'')]"

definition violated :: "body \<Rightarrow> (string \<times> (jsval \<Rightarrow> bool) \<times> string) \<Rightarrow> bool" where
  "violated b c = (case c of (field, satisfied, message) \<Rightarrow> \<not> satisfied (b field))"

definition violation_messages :: "body \<Rightarrow> string list" where
  "violation_messages b = map (\<lambda>c. snd (snd c)) (filter (violated b) constraints)"

text \<open>
  The amended claim says nothing of an object in which a property that the validator
  compares with the ends of a range is NaN.
\<close>

definition not_NaN :: "body \<Rightarrow> bool" where
  "not_NaN b = (b ''credit_score'' \<noteq> JNum NaN \<and> b ''revolving_utilization_pct'' \<noteq> JNum NaN
     \<and> b ''dti_pct'' \<noteq> JNum NaN \<and> b ''oldest_account_years'' \<noteq> JNum NaN
     \<and> b ''requested_amount'' \<noteq> JNum NaN)"

text \<open>
  The validated record holds the values of the object, with the default of a property
  that is absent: 0 for the two counts and the account age, false for the flag,
  \<^verbatim>\<open>null\<close> for the credit score, the DTI percent, the home value and the mortgage balance.
\<close>

definition field_names :: "string list" where
  "field_names = [''first_name'', ''last_name'', ''email'', ''credit_score'',
     ''revolving_utilization_pct'', ''dti_pct'', ''inquiries_6m'', ''oldest_account_years'',
     ''open_tradelines'', ''recent_derogs_24m'', ''bk_or_major_event'', ''requested_amount'',
     ''primary_goal'', ''estimated_home_value'', ''mortgage_balance'', ''source'',
     ''external_contact_id'']"

definition with_defaults :: "body \<Rightarrow> body" where
  "with_defaults b f =
     (if absent (b f) then
        (if f \<in> set [''inquiries_6m'', ''oldest_account_years'', ''recent_derogs_24m'']
           then JNum (Finite 0)
         else if f = ''bk_or_major_event'' then JBool False
         else if f \<in> set [''credit_score'', ''dti_pct'', ''estimated_home_value'', ''mortgage_balance'']
           then JNull
         else b f)
      else b f)"

definition holds_values :: "body \<Rightarrow> FundabilityInput \<Rightarrow> bool" where
  "holds_values b d = (\<forall>f \<in> set field_names. to_body d f = with_defaults b f)"

text \<open>Example objects.\<close>

definition emptyBody :: body where
  "emptyBody k = JUndefined"

definition minimalBody :: body where
  "minimalBody = emptyBody
     (''first_name'' := JStr ''Ada'', ''last_name'' := JStr ''Moss'',
      ''email'' := JStr ''ada@example.com'', ''revolving_utilization_pct'' := JNum (Finite 25),
      ''open_tradelines'' := JNum (Finite 8), ''requested_amount'' := JNum (Finite 50000),
      ''primary_goal'' := JStr ''business_funding'')"

definition minimalRecord :: FundabilityInput where
  "minimalRecord = \<lparr>first_name = ''Ada'', last_name = ''Moss'', email = ''ada@example.com'',
     credit_score = None, revolving_utilization_pct = Finite 25,
     dti_pct = None, inquiries_6m = Finite 0, oldest_account_years = Finite 0,
     open_tradelines = Finite 8, recent_derogs_24m = Finite 0, bk_or_major_event = False,
     requested_amount = Finite 50000, primary_goal = business_funding,
     estimated_home_value = JNull, mortgage_balance = JNull,
     source = JUndefined, external_contact_id = JUndefined\<rparr>"

section \<open>The claimed aggregate and example inputs\<close>

text \<open>
  The aggregate as the specification states it, in exact arithmetic: the weighted sum of
  the five positive subscores with the weights \<open>0.30\<close>, \<open>0.25\<close>, \<open>0.20\<close>, \<open>0.10\<close>, \<open>0.10\<close>, plus
  the penalty points, rounded to the nearest integer and clamped into \<open>[0, 100]\<close>.
\<close>

definition exactScore :: "int \<Rightarrow> int \<Rightarrow> int \<Rightarrow> int \<Rightarrow> int \<Rightarrow> int \<Rightarrow> int" where
  "exactScore c u d i m p =
     max 0 (min 100 (round (3 / 10 * of_int c + 1 / 4 * of_int u + 1 / 5 * of_int d
                             + 1 / 10 * of_int i + 1 / 10 * of_int m + (of_int p :: rat))))"

text \<open>
  A conversion of numbers to strings for the examples: \<^verbatim>\<open>Number::toString\<close> on NaN, the
  infinities and the integers below \<open>10 ^ 21\<close> in absolute value, which are the numbers
  the examples print (for another finite number it prints the integer part only).
\<close>

fun digits :: "nat \<Rightarrow> string" where
  "digits n = (if n < 10 then [''0123456789'' ! n]
               else digits (n div 10) @ [''0123456789'' ! (n mod 10)])"

definition showNumber :: "number \<Rightarrow> string" where
  "showNumber x = (case x of
       NaN \<Rightarrow> ''NaN''
     | PosInfinity \<Rightarrow> ''Infinity''
     | NegInfinity \<Rightarrow> ''-Infinity''
     | Finite q \<Rightarrow> (if q < 0 then ''-'' else []) @ digits (nat \<lfloor>\<bar>q\<bar>\<rfloor>))"

definition exampleNow :: string where
  "exampleNow = ''2025-01-01T00:00:00.000Z''"

definition exampleClock :: "nat \<Rightarrow> string" where
  "exampleClock k = exampleNow"

text \<open>A client with every subscore at its maximum.\<close>

definition primeInput :: FundabilityInput where
  "primeInput = \<lparr>first_name = ''Ada'', last_name = ''Moss'', email = ''ada@example.com'',
     credit_score = Some (Finite 800), revolving_utilization_pct = Finite 5,
     dti_pct = Some (Finite 10), inquiries_6m = Finite 0, oldest_account_years = Finite 12,
     open_tradelines = Finite 8, recent_derogs_24m = Finite 0, bk_or_major_event = False,
     requested_amount = Finite 50000, primary_goal = business_funding,
     estimated_home_value = JNull, mortgage_balance = JNull,
     source = JUndefined, external_contact_id = JUndefined\<rparr>"

text \<open>A client with six grounds for an action.\<close>

definition weakInput :: FundabilityInput where
  "weakInput = primeInput\<lparr>credit_score := Some (Finite 500),
     revolving_utilization_pct := Finite 80, dti_pct := Some (Finite 60),
     inquiries_6m := Finite 6, oldest_account_years := Finite 1,
     recent_derogs_24m := Finite 1\<rparr>"

text \<open>A client of the declared type whose utilization percent is out of range.\<close>

definition invalidInput :: FundabilityInput where
  "invalidInput = primeInput\<lparr>revolving_utilization_pct := Finite 150\<rparr>"

text \<open>
  The object of \<open>primeInput\<close> with one property changed: a credit score that is not an
  integer, a home value that is not a number, an empty first name, an email without
  \<^verbatim>\<open>@\<close>.
\<close>

definition fractionalScoreBody :: body where
  "fractionalScoreBody = (to_body primeInput)(''credit_score'' := JNum (Finite (1401 / 2)))"

definition textHomeValueBody :: body where
  "textHomeValueBody = (to_body primeInput)(''estimated_home_value'' := JStr ''abc'')"

definition blankNameBody :: body where
  "blankNameBody = (to_body primeInput)(''first_name'' := JStr [])"

definition plainEmailBody :: body where
  "plainEmailBody = (to_body primeInput)(''email'' := JStr ''ada'')"

section \<open>Facts about the comparisons and the subscores\<close>

lemma js_ge_Finite [simp]: "js_ge (Finite a) (Finite b) = (b \<le> a)"
  by (simp add: js_ge_def)

lemma js_gt_Finite [simp]: "js_gt (Finite a) (Finite b) = (b < a)"
  by (simp add: js_gt_def)

section \<open>Facts about double-precision rounding\<close>

text \<open>
  The exponent that \<open>ilog2\<close> finds is the right one, the result of \<open>fl\<close> has a
  significand of 53 bits at that exponent, and it is within half a unit in the last place
  of the argument: \<open>fl\<close> rounds to a nearest double (and \<open>round_even\<close> breaks a tie
  toward the even significand).
\<close>

lemma pow2_le_of_int:
  assumes "2 ^ k \<le> (n :: int)"
  shows "(2 ^ k :: rat) \<le> of_int n"
proof -
  have "(of_int (2 ^ k) :: rat) \<le> of_int n"
    using assms by (simp only: of_int_le_iff)
  then show ?thesis by (simp only: of_int_power of_int_numeral)
qed

lemma succ_le_pow2_of_int:
  assumes "(n :: int) < 2 ^ k"
  shows "(of_int n + 1 :: rat) \<le> 2 ^ k"
proof -
  have "n + 1 \<le> 2 ^ k" using assms by simp
  then have "(of_int (n + 1) :: rat) \<le> of_int (2 ^ k)"
    by (simp only: of_int_le_iff)
  then show ?thesis by (simp only: of_int_power of_int_numeral of_int_add of_int_1)
qed

lemma ilog2_bounds:
  assumes "0 < x"
  shows "power_int 2 (ilog2 x) \<le> x \<and> x < power_int 2 (ilog2 x + 1)"
proof (cases "1 \<le> x")
  case True
  define n where "n = \<lfloor>x\<rfloor>"
  have n1: "1 \<le> n" using True by (simp add: n_def le_floor_iff)
  then have n0: "0 < n" by simp
  have bl: "1 \<le> bitlen n" using n0 by (simp add: bitlen_alt_def)
  have lo: "2 ^ nat (bitlen n - 1) \<le> n" and hi: "n < 2 ^ nat (bitlen n)"
    using bitlen_bounds [OF n0] by auto
  have e: "ilog2 x = bitlen n - 1" using True by (simp add: ilog2_def n_def)
  have e1: "ilog2 x + 1 = bitlen n" by (simp add: e)
  have p1: "power_int 2 (bitlen n - 1) = (2 ^ nat (bitlen n - 1) :: rat)"
    using bl by (simp add: power_int_def)
  have p2: "power_int 2 (bitlen n) = (2 ^ nat (bitlen n) :: rat)"
    using bl by (simp add: power_int_def)
  have nx: "of_int n \<le> x" "x < of_int n + 1"
    unfolding n_def by linarith+
  have "2 ^ nat (bitlen n - 1) \<le> x"
    using pow2_le_of_int [OF lo] nx(1) by linarith
  then have a: "power_int 2 (ilog2 x) \<le> x"
    by (simp only: e p1)
  have "x < 2 ^ nat (bitlen n)"
    using succ_le_pow2_of_int [OF hi] nx(2) by linarith
  then have b: "x < power_int 2 (ilog2 x + 1)"
    by (simp only: e1 p2)
  from a b show ?thesis ..
next
  case False
  define y where "y = 1 / x"
  define m where "m = \<lceil>y\<rceil> - 1"
  have y1: "1 < y" using False assms by (simp add: y_def)
  have my: "of_int m < y" "y \<le> of_int m + 1"
    unfolding m_def by linarith+
  have m1: "1 \<le> m" using y1 my(2) by (simp add: m_def)
  then have m0: "0 < m" by simp
  have bl: "1 \<le> bitlen m" using m0 by (simp add: bitlen_alt_def)
  have lo: "2 ^ nat (bitlen m - 1) \<le> m" and hi: "m < 2 ^ nat (bitlen m)"
    using bitlen_bounds [OF m0] by auto
  have e: "ilog2 x = - bitlen m" using False by (simp add: ilog2_def m_def y_def)
  have e1: "ilog2 x + 1 = - (bitlen m - 1)" by (simp add: e)
  have xy: "1 / y = x" by (simp add: y_def)
  have p1: "power_int 2 (- bitlen m) = (1 / 2 ^ nat (bitlen m) :: rat)"
    using bl by (simp add: power_int_def power_one_over)
  have p2: "power_int 2 (- (bitlen m - 1)) = (1 / 2 ^ nat (bitlen m - 1) :: rat)"
    using bl by (simp add: power_int_def power_one_over)
  have "y \<le> 2 ^ nat (bitlen m)"
    using succ_le_pow2_of_int [OF hi] my(2) by linarith
  then have "1 / 2 ^ nat (bitlen m) \<le> 1 / y"
    using y1 by (intro divide_left_mono mult_pos_pos) simp_all
  then have a: "power_int 2 (ilog2 x) \<le> x"
    by (simp only: e p1 xy)
  have "2 ^ nat (bitlen m - 1) < y"
    using pow2_le_of_int [OF lo] my(1) by linarith
  then have "1 / y < 1 / 2 ^ nat (bitlen m - 1)"
    using y1 by (intro divide_strict_left_mono mult_pos_pos) simp_all
  then have b: "x < power_int 2 (ilog2 x + 1)"
    by (simp only: e1 p2 xy)
  from a b show ?thesis ..
qed

lemma round_even_nearest: "\<bar>of_int (round_even m) - m\<bar> \<le> 1 / 2"
proof -
  have "of_int \<lfloor>m\<rfloor> \<le> m" "m < of_int \<lfloor>m\<rfloor> + 1" by linarith+
  then show ?thesis
    by (auto simp: round_even_def Let_def abs_le_iff)
qed

lemma fl_nearest:
  assumes "x \<noteq> 0"
  shows "\<bar>fl x - x\<bar> \<le> power_int 2 (ilog2 \<bar>x\<bar> - 52) / 2"
proof -
  define u :: rat where "u = power_int 2 (ilog2 \<bar>x\<bar> - 52)"
  define n where "n = round_even (\<bar>x\<bar> / u)"
  have u0: "0 < u" by (simp add: u_def)
  have f: "fl x = sgn x * of_int n * u"
    using assms by (simp add: fl_def Let_def u_def n_def)
  have "fl x - x = sgn x * (of_int n * u - \<bar>x\<bar>)"
    by (simp add: f algebra_simps sgn_mult_abs [of x, simplified mult.commute])
  then have "\<bar>fl x - x\<bar> = \<bar>of_int n * u - \<bar>x\<bar>\<bar>"
    using assms by (simp add: abs_mult abs_sgn_eq)
  also have "of_int n * u - \<bar>x\<bar> = (of_int n - \<bar>x\<bar> / u) * u"
    using u0 by (simp add: field_simps)
  also have "\<bar>\<dots>\<bar> = \<bar>of_int n - \<bar>x\<bar> / u\<bar> * u"
    using u0 by (simp add: abs_mult)
  also have "\<dots> \<le> 1 / 2 * u"
    using round_even_nearest [of "\<bar>x\<bar> / u"] u0 unfolding n_def
    by (intro mult_right_mono) simp_all
  finally show ?thesis by (simp add: u_def)
qed

lemma round_even_between: "\<lfloor>m\<rfloor> \<le> round_even m \<and> round_even m \<le> \<lfloor>m\<rfloor> + 1"
  by (simp add: round_even_def Let_def)

lemma fl_significand:
  assumes "x \<noteq> 0"
  shows "\<exists>n. \<bar>fl x\<bar> = of_int n * power_int 2 (ilog2 \<bar>x\<bar> - 52) \<and> 2 ^ 52 \<le> n \<and> n \<le> 2 ^ 53"
proof -
  define e where "e = ilog2 \<bar>x\<bar>"
  define u :: rat where "u = power_int 2 (e - 52)"
  define n where "n = round_even (\<bar>x\<bar> / u)"
  have u0: "0 < u" by (simp add: u_def)
  have ax: "0 < \<bar>x\<bar>" using assms by simp
  have b: "power_int 2 e \<le> \<bar>x\<bar>" "\<bar>x\<bar> < power_int 2 (e + 1)"
    using ilog2_bounds [OF ax] by (simp_all add: e_def)
  have q1: "power_int 2 e / u = (2 ^ 52 :: rat)"
    by (simp add: u_def power_int_diff)
  have q2: "power_int 2 (e + 1) / u = (2 ^ 53 :: rat)"
    by (simp add: u_def power_int_diff power_int_add)
  have "power_int 2 e / u \<le> \<bar>x\<bar> / u"
    using b(1) u0 by (simp add: divide_right_mono)
  then have lo: "2 ^ 52 \<le> \<bar>x\<bar> / u" by (simp only: q1)
  have "\<bar>x\<bar> / u < power_int 2 (e + 1) / u"
    using b(2) u0 by (simp add: divide_strict_right_mono)
  then have hi: "\<bar>x\<bar> / u < 2 ^ 53" by (simp only: q2)
  have "(2 ^ 52 :: int) \<le> \<lfloor>\<bar>x\<bar> / u\<rfloor>"
    using lo by (simp add: le_floor_iff)
  moreover have "\<lfloor>\<bar>x\<bar> / u\<rfloor> < (2 ^ 53 :: int)"
    using hi by (simp add: floor_less_iff)
  ultimately have n: "2 ^ 52 \<le> n" "n \<le> 2 ^ 53"
    using round_even_between [of "\<bar>x\<bar> / u"] unfolding n_def by linarith+
  have "fl x = sgn x * of_int n * u"
    using assms by (simp add: fl_def Let_def u_def n_def e_def)
  then have "\<bar>fl x\<bar> = of_int n * u"
    using assms n(1) u0 by (simp add: abs_mult abs_sgn_eq)
  then show ?thesis
    using n unfolding u_def e_def by blast
qed

text \<open>The weights as doubles.\<close>

lemma weights_as_doubles:
  "weights_credit = 5404319552844595 / 2 ^ 54"
  "weights_utilization = 1 / 4"
  "weights_dti = 3602879701896397 / 2 ^ 54"
  "weights_inquiry = 3602879701896397 / 2 ^ 55"
  "weights_depthMix = 3602879701896397 / 2 ^ 55"
  by code_simp+

text \<open>
  A multiple of \<open>1 / 4\<close> below \<open>2 ^ 48\<close> in absolute value is a double, so rounding leaves
  it as it is; and every product of a reachable subscore with its weight is such a
  multiple, although the weights \<open>0.30\<close>, \<open>0.20\<close> and \<open>0.10\<close> are not.
\<close>

lemma round_even_of_int: "round_even (of_int n) = n"
  by (simp add: round_even_def)

lemma ilog2_le_50:
  assumes "a < 2 ^ 50"
  shows "ilog2 a \<le> 50"
proof (cases "1 \<le> a")
  case True
  have "\<lfloor>a\<rfloor> < 2 ^ 50"
    using assms by (simp add: floor_less_iff)
  then have "bitlen \<lfloor>a\<rfloor> \<le> 50"
    by (simp add: bitlen_le_iff_power)
  with True show ?thesis by (simp add: ilog2_def)
next
  case False
  have "0 \<le> bitlen (\<lceil>1 / a\<rceil> - 1)" by (rule bitlen_nonneg)
  with False show ?thesis by (simp add: ilog2_def)
qed

lemma fl_quarter:
  assumes "\<bar>k\<bar> < 2 ^ 50"
  shows "fl (of_int k / 4) = of_int k / 4"
proof (cases "k = 0")
  case True
  then show ?thesis by (simp add: fl_def)
next
  case False
  define x :: rat where "x = of_int k / 4"
  define e where "e = ilog2 \<bar>x\<bar>"
  define u :: rat where "u = power_int 2 (e - 52)"
  have x0: "x \<noteq> 0" using False by (simp add: x_def)
  have ax: "\<bar>x\<bar> = of_int \<bar>k\<bar> / 4" by (simp add: x_def)
  have "of_int \<bar>k\<bar> < (2 ^ 50 :: rat)"
    using assms by (metis of_int_less_iff of_int_numeral of_int_power)
  then have "\<bar>x\<bar> < 2 ^ 50" by (simp add: ax)
  then have e50: "e \<le> 50" unfolding e_def by (rule ilog2_le_50)
  have upos: "0 < u" by (simp add: u_def)
  have u_eq: "u = power_int 2 e / 2 ^ 52"
    by (simp add: u_def power_int_diff)
  have p50: "(power_int 2 (50 - e) :: rat) = 2 ^ 50 / power_int 2 e"
    by (simp add: power_int_diff)
  have "1 / (4 * u) = (power_int 2 (50 - e) :: rat)"
    unfolding u_eq p50 by simp
  also have "\<dots> = 2 ^ nat (50 - e)"
    using e50 by (simp add: power_int_def)
  finally have inv: "1 / (4 * u) = (2 ^ nat (50 - e) :: rat)" .
  have "\<bar>x\<bar> / u = of_int \<bar>k\<bar> * (1 / (4 * u))"
    by (simp add: ax)
  then have "\<bar>x\<bar> / u = of_int (\<bar>k\<bar> * 2 ^ nat (50 - e))"
    by (simp only: inv of_int_mult of_int_power of_int_numeral)
  then have "of_int (round_even (\<bar>x\<bar> / u)) * u = \<bar>x\<bar>"
    using upos by (simp only: round_even_of_int) (simp add: field_simps)
  then have "sgn x * of_int (round_even (\<bar>x\<bar> / u)) * u = x"
    by (simp add: mult.assoc sgn_mult_abs)
  then show ?thesis
    using x0 unfolding fl_def x_def [symmetric] Let_def u_def e_def by simp
qed

lemma fl_quarter_add:
  assumes "\<bar>a + b\<bar> \<le> 4096"
  shows "fl (of_int a / 4 + of_int b / 4) = of_int (a + b) / 4"
proof -
  have "\<bar>a + b\<bar> < 2 ^ 50" using assms by simp
  then show ?thesis
    using fl_quarter [of "a + b"] by (simp add: add_divide_distrib)
qed

lemma fl_quarter_add_int:
  assumes "\<bar>a + 4 * p\<bar> \<le> 4096"
  shows "fl (of_int a / 4 + of_int p) = of_int (a + 4 * p) / 4"
proof -
  have "\<bar>a + 4 * p\<bar> < 2 ^ 50" using assms by simp
  then show ?thesis
    using fl_quarter [of "a + 4 * p"] by (simp add: add_divide_distrib)
qed

lemma credit_product:
  assumes "s \<in> {15, 30, 40, 45, 65, 80, 90, 95}"
  shows "fl (of_int s * weights_credit) = of_int (6 * (s div 5)) / 4"
  using assms by (elim insertE emptyE; hypsubst; code_simp)

lemma utilization_product:
  assumes "s \<in> {15, 30, 50, 75, 90, 95}"
  shows "fl (of_int s * weights_utilization) = of_int s / 4"
  using assms by (elim insertE emptyE; hypsubst; code_simp)

lemma dti_product:
  assumes "s \<in> {25, 45, 55, 70, 85, 95}"
  shows "fl (of_int s * weights_dti) = of_int (4 * (s div 5)) / 4"
  using assms by (elim insertE emptyE; hypsubst; code_simp)

lemma inquiry_product:
  assumes "s \<in> {20, 35, 60, 80, 95}"
  shows "fl (of_int s * weights_inquiry) = of_int (2 * (s div 5)) / 4"
  using assms by (elim insertE emptyE; hypsubst; code_simp)

lemma depthMix_product:
  assumes "s \<in> {45, 70, 85, 95}"
  shows "fl (of_int s * weights_depthMix) = of_int (2 * (s div 5)) / 4"
  using assms by (elim insertE emptyE; hypsubst; code_simp)

section \<open>Facts about the score\<close>

text \<open>The values that the subscore functions return.\<close>

lemma credit_values: "calculateCreditScoreSubscore c \<in> {15, 30, 40, 45, 65, 80, 90, 95}"
  by (cases c) simp_all

lemma utilization_values: "calculateUtilizationSubscore u \<in> {15, 30, 50, 75, 90, 95}"
  by (simp add: calculateUtilizationSubscore_def)

lemma dti_values: "calculateDTISubscore d \<in> {25, 45, 55, 70, 85, 95}"
  by (cases d) simp_all

lemma inquiry_values: "calculateInquirySubscore i \<in> {20, 35, 60, 80, 95}"
  by (simp add: calculateInquirySubscore_def)

lemma depthMix_values: "calculateDepthMixSubscore y t \<in> {45, 70, 85, 95}"
  by (simp add: calculateDepthMixSubscore_def)

lemma penalty_values: "calculatePenaltyPoints b r \<in> {0, - 10, - 20, - 25, - 35}"
  by (simp add: calculatePenaltyPoints_def Let_def)

text \<open>
  On these values every intermediate result of \<^verbatim>\<open>calculateWeightedScore\<close> is a multiple of
  \<open>1 / 4\<close>, so the double-precision computation makes no rounding error.
\<close>

lemma weighted_exact:
  assumes c: "c \<in> {15, 30, 40, 45, 65, 80, 90, 95}"
    and u: "u \<in> {15, 30, 50, 75, 90, 95}"
    and d: "d \<in> {25, 45, 55, 70, 85, 95}"
    and i: "i \<in> {20, 35, 60, 80, 95}"
    and m: "m \<in> {45, 70, 85, 95}"
    and p: "\<bar>p\<bar> \<le> 100"
  shows "calculateWeightedScore \<lparr>creditScoreSubscore = c, utilizationSubscore = u,
           dtiSubscore = d, inquirySubscore = i, depthMixSubscore = m, penaltyPoints = p\<rparr>
         = exactScore c u d i m p"
proof -
  define kc where "kc = 6 * (c div 5)"
  define kd where "kd = 4 * (d div 5)"
  define ki where "ki = 2 * (i div 5)"
  define km where "km = 2 * (m div 5)"
  have bc: "0 \<le> c \<and> c \<le> 95 \<and> c = 5 * (c div 5)" using c by auto
  have bu: "0 \<le> u \<and> u \<le> 95" using u by auto
  have bd: "0 \<le> d \<and> d \<le> 95 \<and> d = 5 * (d div 5)" using d by auto
  have bi: "0 \<le> i \<and> i \<le> 95 \<and> i = 5 * (i div 5)" using i by auto
  have bm: "0 \<le> m \<and> m \<le> 95 \<and> m = 5 * (m div 5)" using m by auto
  have kcb: "0 \<le> kc \<and> kc \<le> 200" using bc unfolding kc_def by linarith
  have kdb: "0 \<le> kd \<and> kd \<le> 200" using bd unfolding kd_def by linarith
  have kib: "0 \<le> ki \<and> ki \<le> 200" using bi unfolding ki_def by linarith
  have kmb: "0 \<le> km \<and> km \<le> 200" using bm unfolding km_def by linarith
  have s1: "fl (of_int kc / 4 + of_int u / 4) = of_int (kc + u) / 4"
    by (rule fl_quarter_add) (use kcb bu kdb kib kmb p in linarith)
  have s2: "fl (of_int (kc + u) / 4 + of_int kd / 4) = of_int (kc + u + kd) / 4"
    by (rule fl_quarter_add) (use kcb bu kdb kib kmb p in linarith)
  have s3: "fl (of_int (kc + u + kd) / 4 + of_int ki / 4) = of_int (kc + u + kd + ki) / 4"
    by (rule fl_quarter_add) (use kcb bu kdb kib kmb p in linarith)
  have s4: "fl (of_int (kc + u + kd + ki) / 4 + of_int km / 4) = of_int (kc + u + kd + ki + km) / 4"
    by (rule fl_quarter_add) (use kcb bu kdb kib kmb p in linarith)
  have s5: "fl (of_int (kc + u + kd + ki + km) / 4 + of_int p)
            = of_int (kc + u + kd + ki + km + 4 * p) / 4"
    by (rule fl_quarter_add_int) (use kcb bu kdb kib kmb p in linarith)
  have raw: "(of_int (kc + u + kd + ki + km + 4 * p) / 4 :: rat)
             = 3 / 10 * of_int c + 1 / 4 * of_int u + 1 / 5 * of_int d
               + 1 / 10 * of_int i + 1 / 10 * of_int m + of_int p"
  proof -
    have "(of_int c :: rat) = 5 * of_int (c div 5)" using bc by (metis of_int_mult of_int_numeral)
    moreover have "(of_int d :: rat) = 5 * of_int (d div 5)" using bd by (metis of_int_mult of_int_numeral)
    moreover have "(of_int i :: rat) = 5 * of_int (i div 5)" using bi by (metis of_int_mult of_int_numeral)
    moreover have "(of_int m :: rat) = 5 * of_int (m div 5)" using bm by (metis of_int_mult of_int_numeral)
    ultimately show ?thesis
      by (simp add: kc_def kd_def ki_def km_def field_simps)
  qed
  show ?thesis
    unfolding calculateWeightedScore_def Let_def exactScore_def
    by (simp only: Subscores.simps credit_product [OF c, folded kc_def] utilization_product [OF u]
        dti_product [OF d, folded kd_def] inquiry_product [OF i, folded ki_def]
        depthMix_product [OF m, folded km_def] s1 s2 s3 s4 s5 raw Math_round_def round_def)
qed

lemma snapshot_score:
  "fundability_score (calculateFundabilitySnapshot toStr now inp) =
     exactScore (calculateCreditScoreSubscore (credit_score inp))
       (calculateUtilizationSubscore (revolving_utilization_pct inp))
       (calculateDTISubscore (dti_pct inp))
       (calculateInquirySubscore (inquiries_6m inp))
       (calculateDepthMixSubscore (oldest_account_years inp) (open_tradelines inp))
       (calculatePenaltyPoints (bk_or_major_event inp) (recent_derogs_24m inp))"
proof -
  have p: "\<bar>calculatePenaltyPoints (bk_or_major_event inp) (recent_derogs_24m inp)\<bar> \<le> 100"
    using penalty_values [of "bk_or_major_event inp" "recent_derogs_24m inp"] by auto
  show ?thesis
    unfolding calculateFundabilitySnapshot_def Let_def
    by (simp only: FundabilitySnapshot.simps
        weighted_exact [OF credit_values utilization_values dti_values inquiry_values depthMix_values p])
qed

lemma exactScore_mono:
  assumes "c \<le> c'" "u \<le> u'" "d \<le> d'" "i \<le> i'" "m \<le> m'" "p \<le> p'"
  shows "exactScore c u d i m p \<le> exactScore c' u' d' i' m' p'"
proof -
  have "(3 / 10 * of_int c + 1 / 4 * of_int u + 1 / 5 * of_int d
          + 1 / 10 * of_int i + 1 / 10 * of_int m + (of_int p :: rat))
        \<le> 3 / 10 * of_int c' + 1 / 4 * of_int u' + 1 / 5 * of_int d'
          + 1 / 10 * of_int i' + 1 / 10 * of_int m' + of_int p'"
    using assms by (intro add_mono mult_left_mono) simp_all
  then show ?thesis
    unfolding exactScore_def by (intro max.mono min.mono round_mono) simp_all
qed

lemma utilization_mono:
  "js_lt u' u \<Longrightarrow> calculateUtilizationSubscore u \<le> calculateUtilizationSubscore u'"
  by (cases u; cases u') (auto simp: calculateUtilizationSubscore_def)

lemma dti_mono:
  "js_lt d' d \<Longrightarrow> calculateDTISubscore (Some d) \<le> calculateDTISubscore (Some d')"
  by (cases d; cases d') auto

lemma inquiry_mono:
  "js_lt n' n \<Longrightarrow> calculateInquirySubscore n \<le> calculateInquirySubscore n'"
  by (cases n; cases n') (auto simp: calculateInquirySubscore_def)

lemma credit_mono:
  "js_lt c c' \<Longrightarrow> calculateCreditScoreSubscore (Some c) \<le> calculateCreditScoreSubscore (Some c')"
  by (cases c; cases c') (auto simp: js_ge_def)

section \<open>Facts about the snapshot\<close>

lemma snapshot_tier:
  "fundability_tier_numeric (calculateFundabilitySnapshot toStr now inp) =
     numeric (determineTier (fundability_score (calculateFundabilitySnapshot toStr now inp)))"
  by (simp add: calculateFundabilitySnapshot_def Let_def)

lemma snapshot_range_now:
  "funding_range_now (calculateFundabilitySnapshot toStr now inp) =
     calculateFundingRange (fundability_tier_numeric (calculateFundabilitySnapshot toStr now inp))"
  by (simp add: calculateFundabilitySnapshot_def Let_def)

lemma snapshot_range_optimized:
  "funding_range_after_optimization (calculateFundabilitySnapshot toStr now inp) =
     calculateOptimizedFundingRange
       (fundability_tier_numeric (calculateFundabilitySnapshot toStr now inp))
       (calculateUtilizationSubscore (revolving_utilization_pct inp))
       (calculateDTISubscore (dti_pct inp))
       (calculateInquirySubscore (inquiries_6m inp))"
  by (simp add: calculateFundabilitySnapshot_def Let_def)

lemma snapshot_actions:
  "high_impact_actions (calculateFundabilitySnapshot toStr now inp) =
     generateHighImpactActions toStr inp
       \<lparr>creditScoreSubscore = calculateCreditScoreSubscore (credit_score inp),
        utilizationSubscore = calculateUtilizationSubscore (revolving_utilization_pct inp),
        dtiSubscore = calculateDTISubscore (dti_pct inp),
        inquirySubscore = calculateInquirySubscore (inquiries_6m inp),
        depthMixSubscore = calculateDepthMixSubscore (oldest_account_years inp) (open_tradelines inp),
        penaltyPoints = calculatePenaltyPoints (bk_or_major_event inp) (recent_derogs_24m inp)\<rparr>"
  by (simp add: calculateFundabilitySnapshot_def Let_def)

lemma actions_at_most_5: "length (generateHighImpactActions toStr inp s) \<le> 5"
  unfolding generateHighImpactActions_def Let_def by (simp only: length_map length_take min.cobounded2)

lemma strengths_not_empty: "generateStrengths c u d m \<noteq> []"
  by (simp add: generateStrengths_def Let_def)

lemma risks_not_empty: "generateRisks u d i p \<noteq> []"
  by (simp add: generateRisks_def Let_def)

lemma score_mono:
  assumes "calculateCreditScoreSubscore (credit_score a) \<le> calculateCreditScoreSubscore (credit_score b)"
    and "calculateUtilizationSubscore (revolving_utilization_pct a)
           \<le> calculateUtilizationSubscore (revolving_utilization_pct b)"
    and "calculateDTISubscore (dti_pct a) \<le> calculateDTISubscore (dti_pct b)"
    and "calculateInquirySubscore (inquiries_6m a) \<le> calculateInquirySubscore (inquiries_6m b)"
    and "calculateDepthMixSubscore (oldest_account_years a) (open_tradelines a)
           \<le> calculateDepthMixSubscore (oldest_account_years b) (open_tradelines b)"
    and "calculatePenaltyPoints (bk_or_major_event a) (recent_derogs_24m a)
           \<le> calculatePenaltyPoints (bk_or_major_event b) (recent_derogs_24m b)"
  shows "fundability_score (calculateFundabilitySnapshot toStr now a)
           \<le> fundability_score (calculateFundabilitySnapshot toStr now b)"
  unfolding snapshot_score by (rule exactScore_mono) (fact assms)+

section \<open>Facts about the example inputs\<close>

lemma primeInput_subscores:
  "calculateCreditScoreSubscore (credit_score primeInput) = 95"
  "calculateUtilizationSubscore (revolving_utilization_pct primeInput) = 95"
  "calculateDTISubscore (dti_pct primeInput) = 95"
  "calculateInquirySubscore (inquiries_6m primeInput) = 95"
  "calculateDepthMixSubscore (oldest_account_years primeInput) (open_tradelines primeInput) = 95"
  "calculatePenaltyPoints (bk_or_major_event primeInput) (recent_derogs_24m primeInput) = 0"
  by (simp_all add: primeInput_def calculateUtilizationSubscore_def calculateInquirySubscore_def
      calculateDepthMixSubscore_def calculatePenaltyPoints_def)

lemma exactScore_prime: "exactScore 95 95 95 95 95 0 = 90"
  by code_simp

lemma primeInput_score:
  "fundability_score (calculateFundabilitySnapshot toStr now primeInput) = 90"
  by (simp only: snapshot_score primeInput_subscores exactScore_prime)

lemma primeInput_tier:
  "fundability_tier_numeric (calculateFundabilitySnapshot toStr now primeInput) = 1"
  by (simp add: snapshot_tier primeInput_score determineTier_def)

lemma weakInput_subscores:
  "calculateCreditScoreSubscore (credit_score weakInput) = 15"
  "calculateUtilizationSubscore (revolving_utilization_pct weakInput) = 30"
  "calculateDTISubscore (dti_pct weakInput) = 25"
  "calculateInquirySubscore (inquiries_6m weakInput) = 35"
  "calculateDepthMixSubscore (oldest_account_years weakInput) (open_tradelines weakInput) = 45"
  "calculatePenaltyPoints (bk_or_major_event weakInput) (recent_derogs_24m weakInput) = - 10"
  by (simp_all add: weakInput_def primeInput_def calculateUtilizationSubscore_def
      calculateInquirySubscore_def calculateDepthMixSubscore_def calculatePenaltyPoints_def)

lemma primeInput_actions:
  "high_impact_actions (calculateFundabilitySnapshot toStr now primeInput) = []"
proof -
  have "\<not> js_ge (revolving_utilization_pct primeInput) (Finite 50)"
    by (simp add: primeInput_def)
  then show ?thesis
    by (simp add: snapshot_actions primeInput_subscores generateHighImpactActions_def)
qed

lemma weakInput_actions:
  "length (high_impact_actions (calculateFundabilitySnapshot toStr now weakInput)) = 5"
proof -
  have "js_ge (revolving_utilization_pct weakInput) (Finite 50)"
    by (simp add: weakInput_def primeInput_def)
  then show ?thesis
    by (simp add: snapshot_actions weakInput_subscores generateHighImpactActions_def)
qed

lemma primeInput_valid:
  "validateInput (to_body primeInput) = \<lparr>valid = True, data = Some primeInput, errors = None\<rparr>"
  by code_simp

lemma invalidInput_errors:
  "validateInput (to_body invalidInput) =
     \<lparr>valid = False, data = None,
      errors = Some [''revolving_utilization_pct is required and must be between 0 and 100'']\<rparr>"
  by code_simp

section \<open>Facts about the validator\<close>

text \<open>The test of the email is the pattern \<^verbatim>\<open>^[^\s@]+@[^\s@]+\.[^\s@]+$\<close>.\<close>

lemma separator_not_space:
  "w \<in> set space_encodings \<Longrightarrow> CHR ''@'' \<notin> set w \<and> CHR ''.'' \<notin> set w \<and> w \<noteq> []"
  by (auto simp: space_encodings_def)

lemma sublist_across:
  assumes "sublist w (xs @ x # ys)" "x \<notin> set w"
  shows "sublist w xs \<or> sublist w ys"
proof -
  from assms(1) consider "sublist w xs" | "sublist w (x # ys)"
    | w1 w2 where "w = w1 @ w2" "suffix w1 xs" "prefix w2 (x # ys)"
    by (auto simp: sublist_append)
  then show ?thesis
  proof cases
    case 1
    then show ?thesis by simp
  next
    case 2
    then have "prefix w (x # ys) \<or> sublist w ys" by (simp add: sublist_Cons_right)
    then show ?thesis
    proof
      assume "prefix w (x # ys)"
      with assms(2) have "w = []" by (cases w) auto
      then show ?thesis by simp
    qed simp
  next
    case 3
    from 3(3) assms(2) 3(1) have "w2 = []" by (cases w2) auto
    with 3 have "suffix w xs" by simp
    then show ?thesis by auto
  qed
qed

lemma contains_space_across:
  assumes "contains_space (xs @ x # ys)" "x = CHR ''@'' \<or> x = CHR ''.''"
  shows "contains_space xs \<or> contains_space ys"
proof -
  from assms(1) obtain w where w: "w \<in> set space_encodings" "sublist w (xs @ x # ys)"
    by (auto simp: contains_space_def)
  with assms(2) have "x \<notin> set w" using separator_not_space by blast
  with w(2) have "sublist w xs \<or> sublist w ys" by (rule sublist_across)
  with w(1) show ?thesis by (auto simp: contains_space_def)
qed

lemma contains_space_mono: "contains_space x \<Longrightarrow> contains_space (p @ x @ q)"
  by (auto simp: contains_space_def intro: sublist_order.order_trans)

lemma isValidEmail_pattern: "isValidEmail s = email_pattern s"
proof
  assume v: "isValidEmail s"
  define a where "a = takeWhile (\<lambda>c. c \<noteq> CHR ''@'') s"
  define r where "r = dropWhile (\<lambda>c. c \<noteq> CHR ''@'') s"
  have s: "s = a @ r" by (simp add: a_def r_def)
  from v have a0: "a \<noteq> []" and ns: "\<not> contains_space s"
    by (simp_all add: isValidEmail_def Let_def a_def)
  from v obtain x d where r: "r = x # d" and d: "CHR ''@'' \<notin> set d"
      "CHR ''.'' \<in> set (butlast (tl d))"
    by (auto simp: isValidEmail_def Let_def r_def split: list.splits)
  have x: "x = CHR ''@''"
    using r hd_dropWhile [of "\<lambda>c. c \<noteq> CHR ''@''" s] by (auto simp: r_def)
  have aa: "CHR ''@'' \<notin> set a"
    using set_takeWhileD [of "CHR ''@''" "\<lambda>c. c \<noteq> CHR ''@''" s] by (auto simp: a_def)
  from d(2) obtain p q where pq: "butlast (tl d) = p @ CHR ''.'' # q"
    by (auto simp: in_set_conv_decomp)
  then have t0: "tl d \<noteq> []" by auto
  then have d0: "d \<noteq> []" by auto
  have td: "tl d = p @ CHR ''.'' # q @ [last (tl d)]"
    using append_butlast_last_id [OF t0] pq by simp
  define b where "b = hd d # p"
  define c where "c = q @ [last (tl d)]"
  have dd: "d = b @ ''.'' @ c"
    using d0 td by (cases d) (simp_all add: b_def c_def)
  have full: "s = a @ ''@'' @ b @ ''.'' @ c" by (simp add: s r x dd)
  have "\<not> contains_space a"
    using ns contains_space_mono [of a "[]" "''@'' @ b @ ''.'' @ c"] by (auto simp: full)
  moreover have "\<not> contains_space b"
    using ns contains_space_mono [of b "a @ ''@''" "''.'' @ c"] by (auto simp: full)
  moreover have "\<not> contains_space c"
    using ns contains_space_mono [of c "a @ ''@'' @ b @ ''.''" "[]"] by (auto simp: full)
  moreover have "CHR ''@'' \<notin> set b" "CHR ''@'' \<notin> set c"
    using d(1) by (auto simp: dd)
  ultimately have "plain a" "plain b" "plain c"
    using a0 aa by (simp_all add: plain_def b_def c_def)
  with full show "email_pattern s" by (auto simp: email_pattern_def)
next
  assume "email_pattern s"
  then obtain a b c where full: "s = a @ ''@'' @ b @ ''.'' @ c"
    and p: "plain a" "plain b" "plain c"
    by (auto simp: email_pattern_def)
  have tw: "takeWhile (\<lambda>c. c \<noteq> CHR ''@'') s = a"
  proof -
    have "\<forall>x \<in> set a. x \<noteq> CHR ''@''" using p(1) by (auto simp: plain_def)
    then show ?thesis unfolding full by simp
  qed
  have dw: "dropWhile (\<lambda>c. c \<noteq> CHR ''@'') s = CHR ''@'' # b @ ''.'' @ c"
  proof -
    have "\<forall>x \<in> set a. x \<noteq> CHR ''@''" using p(1) by (auto simp: plain_def)
    then show ?thesis unfolding full by simp
  qed
  have dot: "CHR ''.'' \<in> set (butlast (tl (b @ ''.'' @ c)))"
    using p(2,3) by (cases b) (auto simp: plain_def butlast_append)
  have ns: "\<not> contains_space s"
  proof
    assume "contains_space s"
    then have "contains_space a \<or> contains_space (b @ CHR ''.'' # c)"
      using contains_space_across [of a "CHR ''@''" "b @ CHR ''.'' # c"] by (simp add: full)
    then have "contains_space a \<or> contains_space b \<or> contains_space c"
      using contains_space_across [of b "CHR ''.''" c] by auto
    with p show False by (simp add: plain_def)
  qed
  show "isValidEmail s"
    using p ns dot by (simp add: isValidEmail_def Let_def tw dw plain_def)
qed


lemma check_string: "(\<not> truthy v \<or> \<not> is_string v) = (\<not> non_empty_string v)"
  by (cases v) (simp_all add: truthy_def is_string_def non_empty_string_def)

lemma email_pattern_not_empty: "email_pattern s \<Longrightarrow> s \<noteq> []"
  by (auto simp: email_pattern_def)

lemma check_email:
  "(\<not> truthy v \<or> \<not> is_string v \<or> \<not> isValidEmail (as_string v)) = (\<not> email_address v)"
  by (cases v) (auto simp: truthy_def is_string_def email_address_def as_string_def
      isValidEmail_pattern dest: email_pattern_not_empty)

lemma check_between:
  "v \<noteq> JNum NaN \<Longrightarrow>
   (\<not> is_number v \<or> js_lt (as_number v) (Finite lo) \<or> js_gt (as_number v) (Finite hi))
     = (\<not> number_between lo hi v)"
proof (cases v)
  case (JNum n)
  assume "v \<noteq> JNum NaN"
  with JNum show ?thesis
    by (cases n) (auto simp: is_number_def as_number_def number_between_def js_gt_def)
qed (simp_all add: is_number_def number_between_def)

lemma check_integer:
  "(\<not> is_number v \<or> js_lt (as_number v) (Finite 0) \<or> \<not> Number_isInteger v)
     = (\<not> non_negative_integer v)"
proof (cases v)
  case (JNum n)
  then show ?thesis
    by (cases n) (auto simp: is_number_def as_number_def Number_isInteger_def non_negative_integer_def)
qed (simp_all add: is_number_def non_negative_integer_def)

lemma check_non_negative:
  "v \<noteq> JNum NaN \<Longrightarrow>
   (\<not> is_number (nullish_or v (JNum (Finite 0)))
      \<or> js_lt (as_number (nullish_or v (JNum (Finite 0)))) (Finite 0))
     = (\<not> (absent v \<or> non_negative_number v))"
proof (cases v)
  case (JNum n)
  assume "v \<noteq> JNum NaN"
  with JNum show ?thesis
    by (cases n) (auto simp: is_number_def as_number_def non_negative_number_def nullish_or_def absent_def)
qed (simp_all add: is_number_def as_number_def non_negative_number_def nullish_or_def absent_def)

lemma check_positive:
  "v \<noteq> JNum NaN \<Longrightarrow>
   (\<not> is_number v \<or> js_le (as_number v) (Finite 0)) = (\<not> positive_number v)"
proof (cases v)
  case (JNum n)
  assume "v \<noteq> JNum NaN"
  with JNum show ?thesis
    by (cases n) (auto simp: is_number_def as_number_def positive_number_def)
qed (simp_all add: is_number_def positive_number_def)

lemma check_goal: "(\<not> truthy v \<or> \<not> includes_goal v) = (\<not> permitted_goal v)"
  by (cases v) (auto simp: truthy_def includes_goal_def permitted_goal_def validGoals_def goal_name_def)

lemma default_integer:
  "non_negative_integer (nullish_or v (JNum (Finite 0))) = (absent v \<or> non_negative_integer v)"
  by (auto simp: nullish_or_def absent_def non_negative_integer_def)

lemma default_boolean:
  "is_boolean (nullish_or v (JBool False)) = (absent v \<or> is_boolean v)"
  by (auto simp: nullish_or_def absent_def is_boolean_def)

lemma check_optional:
  "(if v \<noteq> JNull \<and> v \<noteq> JUndefined then push_when (\<not> number_between lo hi v) m errs else errs)
     = push_when (\<not> (absent v \<or> number_between lo hi v)) m errs"
  by (auto simp: push_when_def absent_def)

lemma goal_message:
  "''primary_goal is required and must be one of: '' @ join '', '' (map goal_name validGoals)
   = ''primary_goal is required and must be one of: startup_funding, business_funding, debt_consolidation, improve_credit, lower_utilization, raise_score_fast, not_sure''"
  by (simp add: validGoals_def goal_name_def)

lemma push_when_append: "push_when c m errs = errs @ (if c then [m] else [])"
  by (simp add: push_when_def)

lemma violation_messages_unfold:
  "map (\<lambda>c. snd (snd c)) (filter (violated b) ((f, s, m) # cs))
     = (if \<not> s (b f) then [m] else []) @ map (\<lambda>c. snd (snd c)) (filter (violated b) cs)"
  by (simp add: violated_def)

lemma error_chain:
  "push_when (\<not> permitted_goal (b ''primary_goal''))
    (''primary_goal is required and must be one of: startup_funding, business_funding, debt_consolidation, improve_credit, lower_utilization, raise_score_fast, not_sure'')
  (push_when (\<not> positive_number (b ''requested_amount''))
    (''requested_amount is required and must be a positive number'')
  (push_when (\<not> (absent (b ''bk_or_major_event'') \<or> is_boolean (b ''bk_or_major_event'')))
    (''bk_or_major_event must be a boolean'')
  (push_when (\<not> (absent (b ''recent_derogs_24m'') \<or> non_negative_integer (b ''recent_derogs_24m'')))
    (''recent_derogs_24m must be a non-negative integer'')
  (push_when (\<not> non_negative_integer (b ''open_tradelines''))
    (''open_tradelines is required and must be a non-negative integer'')
  (push_when (\<not> (absent (b ''oldest_account_years'') \<or> non_negative_number (b ''oldest_account_years'')))
    (''oldest_account_years must be a non-negative number'')
  (push_when (\<not> (absent (b ''inquiries_6m'') \<or> non_negative_integer (b ''inquiries_6m'')))
    (''inquiries_6m must be a non-negative integer'')
  (push_when (\<not> (absent (b ''dti_pct'') \<or> number_between 0 100 (b ''dti_pct'')))
    (''dti_pct must be between 0 and 100, or null'')
  (push_when (\<not> number_between 0 100 (b ''revolving_utilization_pct''))
    (''revolving_utilization_pct is required and must be between 0 and 100'')
  (push_when (\<not> (absent (b ''credit_score'') \<or> number_between 300 850 (b ''credit_score'')))
    (''credit_score must be between 300 and 850, or null'')
  (push_when (\<not> email_address (b ''email''))
    (''email is required and must be a valid email address'')
  (push_when (\<not> non_empty_string (b ''last_name''))
    (''last_name is required and must be a string'')
  (push_when (\<not> non_empty_string (b ''first_name''))
    (''first_name is required and must be a string'') [])))))))))))) = violation_messages b"
  unfolding violation_messages_def constraints_def
  by (simp only: violation_messages_unfold push_when_append list.map(1) filter.simps(1)
      append_Nil append_Nil2 append_assoc)

lemma validateInput_errors:
  assumes "not_NaN b"
  shows "validateInput b =
     (if violation_messages b = []
      then \<lparr>valid = True, data = data (validateInput b), errors = None\<rparr>
      else \<lparr>valid = False, data = None, errors = Some (violation_messages b)\<rparr>)"
proof -
  have n: "b ''credit_score'' \<noteq> JNum NaN" "b ''revolving_utilization_pct'' \<noteq> JNum NaN"
    "b ''dti_pct'' \<noteq> JNum NaN" "b ''oldest_account_years'' \<noteq> JNum NaN"
    "b ''requested_amount'' \<noteq> JNum NaN"
    using assms by (simp_all add: not_NaN_def)
  show ?thesis
    unfolding validateInput_def Let_def
    by (simp only: check_string check_email check_between [OF n(1)] check_between [OF n(2)]
        check_between [OF n(3)] check_integer check_non_negative [OF n(4)]
        check_positive [OF n(5)] check_goal default_integer default_boolean
        check_optional goal_message error_chain length_greater_0_conv)
       simp
qed

text \<open>The shape of the result on each of the two paths.\<close>

lemma accept_shape:
  assumes "valid (if length es > 0 then \<lparr>valid = False, data = None, errors = Some es\<rparr> else r)"
  shows "(if length es > 0 then \<lparr>valid = False, data = None, errors = Some es\<rparr> else r) = r"
  using assms by (simp split: if_splits)

lemma validateInput_valid:
  assumes "valid (validateInput b)"
  shows "validateInput b =
     \<lparr>valid = True,
      data = Some \<lparr>first_name = as_string (b ''first_name''),
           last_name = as_string (b ''last_name''),
           email = as_string (b ''email''),
           credit_score = as_number_or_null (nullish_or (b ''credit_score'') JNull),
           revolving_utilization_pct = as_number (b ''revolving_utilization_pct''),
           dti_pct = as_number_or_null (nullish_or (b ''dti_pct'') JNull),
           inquiries_6m = as_number (nullish_or (b ''inquiries_6m'') (JNum (Finite 0))),
           oldest_account_years = as_number (nullish_or (b ''oldest_account_years'') (JNum (Finite 0))),
           open_tradelines = as_number (b ''open_tradelines''),
           recent_derogs_24m = as_number (nullish_or (b ''recent_derogs_24m'') (JNum (Finite 0))),
           bk_or_major_event = as_boolean (nullish_or (b ''bk_or_major_event'') (JBool False)),
           requested_amount = as_number (b ''requested_amount''),
           primary_goal = as_goal (b ''primary_goal''),
           estimated_home_value = nullish_or (b ''estimated_home_value'') JNull,
           mortgage_balance = nullish_or (b ''mortgage_balance'') JNull,
           source = b ''source'',
           external_contact_id = b ''external_contact_id''\<rparr>,
      errors = None\<rparr>"
  using assms unfolding validateInput_def Let_def
  by (rule accept_shape)



lemma reject_shape:
  assumes "m \<in> set es"
  shows "\<exists>es'. (if length es > 0 then \<lparr>valid = False, data = None, errors = Some es\<rparr> else r)
           = \<lparr>valid = False, data = None, errors = Some es'\<rparr> \<and> m \<in> set es'"
proof -
  from assms have "length es > 0" by (cases es) auto
  with assms show ?thesis by auto
qed

lemma pushed: "c \<Longrightarrow> m \<in> set (push_when c m errs)"
  by (simp add: push_when_def)

lemma kept: "x \<in> set errs \<Longrightarrow> x \<in> set (push_when c m errs)"
  by (simp add: push_when_def)

lemma kept_optional: "x \<in> set errs \<Longrightarrow> x \<in> set (if p then push_when c m errs else errs)"
  by (simp add: push_when_def)

lemma utilization_150_rejected:
  assumes "b ''revolving_utilization_pct'' = JNum (Finite 150)"
  shows "\<exists>es. validateInput b = \<lparr>valid = False, data = None, errors = Some es\<rparr>
      \<and> ''revolving_utilization_pct is required and must be between 0 and 100'' \<in> set es"
  unfolding validateInput_def Let_def
  apply (rule reject_shape)
  apply (rule kept, rule kept, rule kept, rule kept, rule kept, rule kept, rule kept)
  apply (rule kept_optional)
  apply (rule pushed)
  apply (simp add: assms is_number_def as_number_def)
  done

lemma missing_goal_rejected:
  assumes "b ''primary_goal'' = JUndefined"
  shows "\<exists>es. validateInput b = \<lparr>valid = False, data = None, errors = Some es\<rparr>
      \<and> ''primary_goal is required and must be one of: startup_funding, business_funding, debt_consolidation, improve_credit, lower_utilization, raise_score_fast, not_sure'' \<in> set es"
  unfolding validateInput_def Let_def goal_message
  apply (rule reject_shape)
  apply (rule pushed)
  apply (simp add: assms truthy_def)
  done

text \<open>
  When no constraint is violated, every value that the validator reads at a type has
  that type, and the validated record holds the values of the object.
\<close>

lemma violated_message:
  "(field, satisfied, message) \<in> set constraints \<Longrightarrow> \<not> satisfied (b field)
   \<Longrightarrow> message \<in> set (violation_messages b)"
  by (force simp: violation_messages_def violated_def)

lemma all_satisfied:
  "violation_messages b = [] \<Longrightarrow> (field, satisfied, message) \<in> set constraints
   \<Longrightarrow> satisfied (b field)"
  using violated_message [of field satisfied message b] by auto

lemma string_value: "non_empty_string v \<Longrightarrow> JStr (as_string v) = v"
  by (cases v) (simp_all add: non_empty_string_def as_string_def)

lemma email_value: "email_address v \<Longrightarrow> JStr (as_string v) = v"
  by (cases v) (simp_all add: email_address_def as_string_def)

lemma number_value: "number_between lo hi v \<Longrightarrow> JNum (as_number v) = v"
  by (cases v) (simp_all add: number_between_def as_number_def)

lemma integer_value: "non_negative_integer v \<Longrightarrow> JNum (as_number v) = v"
  by (cases v) (simp_all add: non_negative_integer_def as_number_def)

lemma positive_value: "positive_number v \<Longrightarrow> JNum (as_number v) = v"
  by (cases v) (simp_all add: positive_number_def as_number_def)

lemma goal_value: "permitted_goal v \<Longrightarrow> JStr (goal_name (as_goal v)) = v"
  by (auto simp: permitted_goal_def as_goal_def validGoals_def goal_name_def)

lemma optional_number_value:
  "absent v \<or> number_between lo hi v \<Longrightarrow>
   (case as_number_or_null (nullish_or v JNull) of None \<Rightarrow> JNull | Some n \<Rightarrow> JNum n)
     = (if absent v then JNull else v)"
  by (cases v) (auto simp: absent_def number_between_def nullish_or_def as_number_or_null_def)

lemma default_integer_value:
  "absent v \<or> non_negative_integer v \<Longrightarrow>
   JNum (as_number (nullish_or v (JNum (Finite 0)))) = (if absent v then JNum (Finite 0) else v)"
  by (cases v) (auto simp: absent_def non_negative_integer_def nullish_or_def as_number_def)

lemma default_number_value:
  "absent v \<or> non_negative_number v \<Longrightarrow>
   JNum (as_number (nullish_or v (JNum (Finite 0)))) = (if absent v then JNum (Finite 0) else v)"
  by (cases v) (auto simp: absent_def non_negative_number_def nullish_or_def as_number_def)

lemma default_boolean_value:
  "absent v \<or> is_boolean v \<Longrightarrow>
   JBool (as_boolean (nullish_or v (JBool False))) = (if absent v then JBool False else v)"
  by (cases v) (auto simp: absent_def is_boolean_def nullish_or_def as_boolean_def)

lemma optional_value: "nullish_or v JNull = (if absent v then JNull else v)"
  by (auto simp: nullish_or_def absent_def)

lemma validateInput_accepts:
  assumes n: "not_NaN b" and none: "violation_messages b = []"
  shows "\<exists>d. validateInput b = \<lparr>valid = True, data = Some d, errors = None\<rparr> \<and> holds_values b d"
proof -
  define d where "d = \<lparr>first_name = as_string (b ''first_name''),
           last_name = as_string (b ''last_name''),
           email = as_string (b ''email''),
           credit_score = as_number_or_null (nullish_or (b ''credit_score'') JNull),
           revolving_utilization_pct = as_number (b ''revolving_utilization_pct''),
           dti_pct = as_number_or_null (nullish_or (b ''dti_pct'') JNull),
           inquiries_6m = as_number (nullish_or (b ''inquiries_6m'') (JNum (Finite 0))),
           oldest_account_years = as_number (nullish_or (b ''oldest_account_years'') (JNum (Finite 0))),
           open_tradelines = as_number (b ''open_tradelines''),
           recent_derogs_24m = as_number (nullish_or (b ''recent_derogs_24m'') (JNum (Finite 0))),
           bk_or_major_event = as_boolean (nullish_or (b ''bk_or_major_event'') (JBool False)),
           requested_amount = as_number (b ''requested_amount''),
           primary_goal = as_goal (b ''primary_goal''),
           estimated_home_value = nullish_or (b ''estimated_home_value'') JNull,
           mortgage_balance = nullish_or (b ''mortgage_balance'') JNull,
           source = b ''source'',
           external_contact_id = b ''external_contact_id''\<rparr>"
  have "valid (validateInput b)"
    using validateInput_errors [OF n] none by (metis ValidationResult.select_convs(1))
  then have v: "validateInput b = \<lparr>valid = True, data = Some d, errors = None\<rparr>"
    unfolding d_def by (rule validateInput_valid)
  note sat = all_satisfied [OF none]
  have s1: "non_empty_string (b ''first_name'')"
    by (rule sat [where field = "''first_name''"]) (simp add: constraints_def)
  have s2: "non_empty_string (b ''last_name'')"
    by (rule sat [where field = "''last_name''"]) (simp add: constraints_def)
  have s3: "email_address (b ''email'')"
    by (rule sat [where field = "''email''"]) (simp add: constraints_def)
  have s4: "absent (b ''credit_score'') \<or> number_between 300 850 (b ''credit_score'')"
    by (rule sat [where field = "''credit_score''"
          and satisfied = "\<lambda>v. absent v \<or> number_between 300 850 v"]) (simp add: constraints_def)
  have s5: "number_between 0 100 (b ''revolving_utilization_pct'')"
    by (rule sat [where field = "''revolving_utilization_pct''"]) (simp add: constraints_def)
  have s6: "absent (b ''dti_pct'') \<or> number_between 0 100 (b ''dti_pct'')"
    by (rule sat [where field = "''dti_pct''"
          and satisfied = "\<lambda>v. absent v \<or> number_between 0 100 v"]) (simp add: constraints_def)
  have s7: "absent (b ''inquiries_6m'') \<or> non_negative_integer (b ''inquiries_6m'')"
    by (rule sat [where field = "''inquiries_6m''"
          and satisfied = "\<lambda>v. absent v \<or> non_negative_integer v"]) (simp add: constraints_def)
  have s8: "absent (b ''oldest_account_years'') \<or> non_negative_number (b ''oldest_account_years'')"
    by (rule sat [where field = "''oldest_account_years''"
          and satisfied = "\<lambda>v. absent v \<or> non_negative_number v"]) (simp add: constraints_def)
  have s9: "non_negative_integer (b ''open_tradelines'')"
    by (rule sat [where field = "''open_tradelines''"]) (simp add: constraints_def)
  have s10: "absent (b ''recent_derogs_24m'') \<or> non_negative_integer (b ''recent_derogs_24m'')"
    by (rule sat [where field = "''recent_derogs_24m''"
          and satisfied = "\<lambda>v. absent v \<or> non_negative_integer v"]) (simp add: constraints_def)
  have s11: "absent (b ''bk_or_major_event'') \<or> is_boolean (b ''bk_or_major_event'')"
    by (rule sat [where field = "''bk_or_major_event''"
          and satisfied = "\<lambda>v. absent v \<or> is_boolean v"]) (simp add: constraints_def)
  have s12: "positive_number (b ''requested_amount'')"
    by (rule sat [where field = "''requested_amount''"]) (simp add: constraints_def)
  have s13: "permitted_goal (b ''primary_goal'')"
    by (rule sat [where field = "''primary_goal''"]) (simp add: constraints_def)
  have f: "to_body d ''first_name'' = with_defaults b ''first_name''"
    "to_body d ''last_name'' = with_defaults b ''last_name''"
    "to_body d ''email'' = with_defaults b ''email''"
    "to_body d ''revolving_utilization_pct'' = with_defaults b ''revolving_utilization_pct''"
    "to_body d ''open_tradelines'' = with_defaults b ''open_tradelines''"
    "to_body d ''requested_amount'' = with_defaults b ''requested_amount''"
    "to_body d ''primary_goal'' = with_defaults b ''primary_goal''"
    "to_body d ''source'' = with_defaults b ''source''"
    "to_body d ''external_contact_id'' = with_defaults b ''external_contact_id''"
    by (simp_all add: to_body_def with_defaults_def d_def
        string_value [OF s1] string_value [OF s2] email_value [OF s3]
        number_value [OF s5] integer_value [OF s9] positive_value [OF s12] goal_value [OF s13])
  have g: "to_body d ''credit_score'' = with_defaults b ''credit_score''"
    "to_body d ''dti_pct'' = with_defaults b ''dti_pct''"
    "to_body d ''inquiries_6m'' = with_defaults b ''inquiries_6m''"
    "to_body d ''oldest_account_years'' = with_defaults b ''oldest_account_years''"
    "to_body d ''recent_derogs_24m'' = with_defaults b ''recent_derogs_24m''"
    "to_body d ''bk_or_major_event'' = with_defaults b ''bk_or_major_event''"
    by (simp_all add: to_body_def with_defaults_def d_def
        optional_number_value [OF s4] optional_number_value [OF s6]
        default_integer_value [OF s7] default_number_value [OF s8]
        default_integer_value [OF s10] default_boolean_value [OF s11])
  have h: "to_body d ''estimated_home_value'' = with_defaults b ''estimated_home_value''"
    "to_body d ''mortgage_balance'' = with_defaults b ''mortgage_balance''"
    by (simp_all add: to_body_def with_defaults_def d_def optional_value)
  have "holds_values b d"
    unfolding holds_values_def field_names_def by (simp only: list.set ball_simps f g h simp_thms)
  with v show ?thesis by blast
qed

text \<open>The values of the properties determine the validated record.\<close>

lemma goal_name_inject: "goal_name g = goal_name g' \<Longrightarrow> g = g'"
  by (cases g; cases g') (simp_all add: goal_name_def)

lemma holds_values_unique:
  assumes "holds_values b d" "holds_values b d'"
  shows "d = d'"
proof -
  have e: "to_body d f = to_body d' f" if "f \<in> set field_names" for f
    using assms that by (simp add: holds_values_def)
  have "first_name d = first_name d'"
    using e [of "''first_name''"] by (simp add: field_names_def to_body_def)
  moreover have "last_name d = last_name d'"
    using e [of "''last_name''"] by (simp add: field_names_def to_body_def)
  moreover have "email d = email d'"
    using e [of "''email''"] by (simp add: field_names_def to_body_def)
  moreover have "credit_score d = credit_score d'"
    using e [of "''credit_score''"] by (simp add: field_names_def to_body_def split: option.splits)
  moreover have "revolving_utilization_pct d = revolving_utilization_pct d'"
    using e [of "''revolving_utilization_pct''"] by (simp add: field_names_def to_body_def)
  moreover have "dti_pct d = dti_pct d'"
    using e [of "''dti_pct''"] by (simp add: field_names_def to_body_def split: option.splits)
  moreover have "inquiries_6m d = inquiries_6m d'"
    using e [of "''inquiries_6m''"] by (simp add: field_names_def to_body_def)
  moreover have "oldest_account_years d = oldest_account_years d'"
    using e [of "''oldest_account_years''"] by (simp add: field_names_def to_body_def)
  moreover have "open_tradelines d = open_tradelines d'"
    using e [of "''open_tradelines''"] by (simp add: field_names_def to_body_def)
  moreover have "recent_derogs_24m d = recent_derogs_24m d'"
    using e [of "''recent_derogs_24m''"] by (simp add: field_names_def to_body_def)
  moreover have "bk_or_major_event d = bk_or_major_event d'"
    using e [of "''bk_or_major_event''"] by (simp add: field_names_def to_body_def)
  moreover have "requested_amount d = requested_amount d'"
    using e [of "''requested_amount''"] by (simp add: field_names_def to_body_def)
  moreover have "primary_goal d = primary_goal d'"
    using e [of "''primary_goal''"] by (simp add: field_names_def to_body_def goal_name_inject)
  moreover have "estimated_home_value d = estimated_home_value d'"
    using e [of "''estimated_home_value''"] by (simp add: field_names_def to_body_def)
  moreover have "mortgage_balance d = mortgage_balance d'"
    using e [of "''mortgage_balance''"] by (simp add: field_names_def to_body_def)
  moreover have "source d = source d'"
    using e [of "''source''"] by (simp add: field_names_def to_body_def)
  moreover have "external_contact_id d = external_contact_id d'"
    using e [of "''external_contact_id''"] by (simp add: field_names_def to_body_def)
  ultimately show ?thesis by simp
qed

text \<open>An accepted object and the object with no property.\<close>

lemma minimalBody_accepted:
  "validateInput minimalBody = \<lparr>valid = True, data = Some minimalRecord, errors = None\<rparr>"
  by code_simp

lemma emptyBody_rejected:
  "validateInput emptyBody = \<lparr>valid = False, data = None, errors = Some
        [''first_name is required and must be a string'',
         ''last_name is required and must be a string'',
         ''email is required and must be a valid email address'',
         ''revolving_utilization_pct is required and must be between 0 and 100'',
         ''open_tradelines is required and must be a non-negative integer'',
         ''requested_amount is required and must be a positive number'',
         ''primary_goal is required and must be one of: startup_funding, business_funding, debt_consolidation, improve_credit, lower_utilization, raise_score_fast, not_sure'']\<rparr>"
  by code_simp

section \<open>Facts about the batch runner\<close>

lemma processClient_always_success:
  "processClient toStr now c =
     Success (first_name c @ '' '' @ last_name c) (email c) (calculateFundabilitySnapshot toStr now c)"
  by (simp add: processClient_def length_property_def ToNumber_def js_gt_def Let_def)

lemma concat_chunksOf10: "concat (chunksOf10 xs) = xs"
proof (induction xs rule: chunksOf10.induct)
  case (1 xs)
  show ?case
  proof (cases "xs = []")
    case True
    then show ?thesis by (simp add: chunksOf10.simps)
  next
    case False
    with "1" show ?thesis
      by (subst chunksOf10.simps) simp
  qed
qed

lemma sort_results_success:
  "foldl (\<lambda>(succ, fail) r. if is_success r then (succ @ [r], fail) else (succ, fail @ [r]))
     (s, f) (map (\<lambda>(k, client). processClient toStr (clock k) client) xs)
   = (s @ map (\<lambda>(k, client). processClient toStr (clock k) client) xs, f)"
proof (induction xs arbitrary: s)
  case Nil
  then show ?case by simp
next
  case (Cons x xs)
  obtain k c where x: "x = (k, c)" by (cases x)
  show ?case
    by (simp add: x Cons.IH) (simp add: processClient_always_success)
qed

lemma processChunks_success:
  "foldl (processChunk toStr clock) (s, f) chunks
   = (s @ map (\<lambda>(k, client). processClient toStr (clock k) client) (concat chunks), f)"
proof (induction chunks arbitrary: s)
  case Nil
  then show ?case by simp
next
  case (Cons ch chunks)
  have step: "processChunk toStr clock (s, f) ch
      = (s @ map (\<lambda>(k, client). processClient toStr (clock k) client) ch, f)"
    by (simp add: processChunk_def Let_def sort_results_success)
  show ?case
    by (simp only: foldl_Cons step Cons.IH concat.simps map_append append_assoc)
qed

lemma processBatch_never_fails:
  "processBatch toStr clock clients =
     \<lparr>success = map (\<lambda>(k, client). processClient toStr (clock k) client)
                    (zip [0 ..< length clients] clients),
      failed = [],
      summary = \<lparr>total = length clients, successful = length clients, failed_count = 0\<rparr>\<rparr>"
  by (simp add: processBatch_def Let_def processChunks_success concat_chunksOf10)

section \<open>Claims\<close>

text \<open>
  C1: for every input, the aggregate score of the snapshot is the weighted sum of the
  five positive subscores of the snapshot with the weights \<open>0.30\<close> (credit), \<open>0.25\<close>
  (utilization), \<open>0.20\<close> (DTI), \<open>0.10\<close> (inquiry) and \<open>0.10\<close> (depth and mix), plus the
  penalty points with no weight of their own, rounded to the nearest integer and clamped
  into \<open>[0, 100]\<close>; and the subscores of the snapshot are those of the input's fields. The
  sum on the right is exact: the double-precision computation of the code agrees with it.
\<close>

theorem C1_weighted_aggregate:
  "fundability_score (calculateFundabilitySnapshot toStr now inp) =
     max 0 (min 100 (round
       (3 / 10 * of_int (credit_score_subscore (subscores (calculateFundabilitySnapshot toStr now inp)))
        + 1 / 4 * of_int (utilization_subscore (subscores (calculateFundabilitySnapshot toStr now inp)))
        + 1 / 5 * of_int (dti_subscore (subscores (calculateFundabilitySnapshot toStr now inp)))
        + 1 / 10 * of_int (inquiry_subscore (subscores (calculateFundabilitySnapshot toStr now inp)))
        + 1 / 10 * of_int (depth_mix_subscore (subscores (calculateFundabilitySnapshot toStr now inp)))
        + (of_int (penalty_points (subscores (calculateFundabilitySnapshot toStr now inp))) :: rat))))
   \<and> subscores (calculateFundabilitySnapshot toStr now inp) =
       \<lparr>credit_score_subscore = calculateCreditScoreSubscore (credit_score inp),
        utilization_subscore = calculateUtilizationSubscore (revolving_utilization_pct inp),
        dti_subscore = calculateDTISubscore (dti_pct inp),
        inquiry_subscore = calculateInquirySubscore (inquiries_6m inp),
        depth_mix_subscore = calculateDepthMixSubscore (oldest_account_years inp) (open_tradelines inp),
        penalty_points = calculatePenaltyPoints (bk_or_major_event inp) (recent_derogs_24m inp)\<rparr>"
proof -
  have subs: "subscores (calculateFundabilitySnapshot toStr now inp) =
       \<lparr>credit_score_subscore = calculateCreditScoreSubscore (credit_score inp),
        utilization_subscore = calculateUtilizationSubscore (revolving_utilization_pct inp),
        dti_subscore = calculateDTISubscore (dti_pct inp),
        inquiry_subscore = calculateInquirySubscore (inquiries_6m inp),
        depth_mix_subscore = calculateDepthMixSubscore (oldest_account_years inp) (open_tradelines inp),
        penalty_points = calculatePenaltyPoints (bk_or_major_event inp) (recent_derogs_24m inp)\<rparr>"
    by (simp add: calculateFundabilitySnapshot_def Let_def)
  show ?thesis
    unfolding subs
    by (simp only: SnapshotSubscores.simps snapshot_score exactScore_def simp_thms)
qed

text \<open>C1 at the client \<open>weakInput\<close>: the weighted sum is \<open>24.5\<close>, the penalty \<open>-10\<close>, the score 15.\<close>

theorem C1_weighted_aggregate_witness:
  "fundability_score (calculateFundabilitySnapshot showNumber exampleNow weakInput) = 15"
proof -
  have sc: "subscores (calculateFundabilitySnapshot showNumber exampleNow weakInput) =
      \<lparr>credit_score_subscore = 15, utilization_subscore = 30, dti_subscore = 25,
       inquiry_subscore = 35, depth_mix_subscore = 45, penalty_points = - 10\<rparr>"
    using C1_weighted_aggregate [of showNumber exampleNow weakInput]
    by (simp only: weakInput_subscores)
  have "max 0 (min 100 (round (3 / 10 * of_int 15 + 1 / 4 * of_int 30 + 1 / 5 * of_int 25
          + 1 / 10 * of_int 35 + 1 / 10 * of_int 45 + (of_int (- 10) :: rat)))) = (15 :: int)"
    by code_simp
  then show ?thesis
    using C1_weighted_aggregate [of showNumber exampleNow weakInput]
    by (simp only: sc SnapshotSubscores.simps)
qed

text \<open>
  C2: for every input, replacing the utilization percent by a smaller number, the DTI
  percent (a number) by a smaller number, the inquiry count by a smaller number, or the
  credit score (a number) by a greater number, all other fields unchanged, gives an
  aggregate score that is greater than or equal to that of the original input.
\<close>

theorem C2_monotonicity:
  "(js_lt u' (revolving_utilization_pct inp) \<longrightarrow>
      fundability_score (calculateFundabilitySnapshot toStr now inp)
        \<le> fundability_score (calculateFundabilitySnapshot toStr now (inp\<lparr>revolving_utilization_pct := u'\<rparr>)))
   \<and> (dti_pct inp = Some d \<and> js_lt d' d \<longrightarrow>
      fundability_score (calculateFundabilitySnapshot toStr now inp)
        \<le> fundability_score (calculateFundabilitySnapshot toStr now (inp\<lparr>dti_pct := Some d'\<rparr>)))
   \<and> (js_lt n' (inquiries_6m inp) \<longrightarrow>
      fundability_score (calculateFundabilitySnapshot toStr now inp)
        \<le> fundability_score (calculateFundabilitySnapshot toStr now (inp\<lparr>inquiries_6m := n'\<rparr>)))
   \<and> (credit_score inp = Some c \<and> js_lt c c' \<longrightarrow>
      fundability_score (calculateFundabilitySnapshot toStr now inp)
        \<le> fundability_score (calculateFundabilitySnapshot toStr now (inp\<lparr>credit_score := Some c'\<rparr>)))"
proof (intro conjI impI)
  assume "js_lt u' (revolving_utilization_pct inp)"
  then show "fundability_score (calculateFundabilitySnapshot toStr now inp)
        \<le> fundability_score (calculateFundabilitySnapshot toStr now (inp\<lparr>revolving_utilization_pct := u'\<rparr>))"
    by (intro score_mono) (simp_all add: utilization_mono)
next
  assume "dti_pct inp = Some d \<and> js_lt d' d"
  then show "fundability_score (calculateFundabilitySnapshot toStr now inp)
        \<le> fundability_score (calculateFundabilitySnapshot toStr now (inp\<lparr>dti_pct := Some d'\<rparr>))"
    by (intro score_mono) (simp_all add: dti_mono del: calculateDTISubscore.simps)
next
  assume "js_lt n' (inquiries_6m inp)"
  then show "fundability_score (calculateFundabilitySnapshot toStr now inp)
        \<le> fundability_score (calculateFundabilitySnapshot toStr now (inp\<lparr>inquiries_6m := n'\<rparr>))"
    by (intro score_mono) (simp_all add: inquiry_mono)
next
  assume "credit_score inp = Some c \<and> js_lt c c'"
  then show "fundability_score (calculateFundabilitySnapshot toStr now inp)
        \<le> fundability_score (calculateFundabilitySnapshot toStr now (inp\<lparr>credit_score := Some c'\<rparr>))"
    by (intro score_mono) (simp_all add: credit_mono del: calculateCreditScoreSubscore.simps)
qed

text \<open>C2 at the client \<open>weakInput\<close>, each of the four changes applied to it.\<close>

theorem C2_monotonicity_witness:
  "js_lt (Finite 20) (revolving_utilization_pct weakInput)
   \<and> dti_pct weakInput = Some (Finite 60) \<and> js_lt (Finite 30) (Finite 60)
   \<and> js_lt (Finite 2) (inquiries_6m weakInput)
   \<and> credit_score weakInput = Some (Finite 500) \<and> js_lt (Finite 500) (Finite 700)
   \<and> fundability_score (calculateFundabilitySnapshot showNumber exampleNow weakInput)
        \<le> fundability_score (calculateFundabilitySnapshot showNumber exampleNow
             (weakInput\<lparr>revolving_utilization_pct := Finite 20\<rparr>))
   \<and> fundability_score (calculateFundabilitySnapshot showNumber exampleNow weakInput)
        \<le> fundability_score (calculateFundabilitySnapshot showNumber exampleNow
             (weakInput\<lparr>dti_pct := Some (Finite 30)\<rparr>))
   \<and> fundability_score (calculateFundabilitySnapshot showNumber exampleNow weakInput)
        \<le> fundability_score (calculateFundabilitySnapshot showNumber exampleNow
             (weakInput\<lparr>inquiries_6m := Finite 2\<rparr>))
   \<and> fundability_score (calculateFundabilitySnapshot showNumber exampleNow weakInput)
        \<le> fundability_score (calculateFundabilitySnapshot showNumber exampleNow
             (weakInput\<lparr>credit_score := Some (Finite 700)\<rparr>))"
proof -
  have h: "js_lt (Finite 20) (revolving_utilization_pct weakInput)"
    "dti_pct weakInput = Some (Finite 60) \<and> js_lt (Finite 30) (Finite 60)"
    "js_lt (Finite 2) (inquiries_6m weakInput)"
    "credit_score weakInput = Some (Finite 500) \<and> js_lt (Finite 500) (Finite 700)"
    by (simp_all add: weakInput_def primeInput_def)
  show ?thesis
    using h C2_monotonicity [of "Finite 20" weakInput showNumber exampleNow
        "Finite 60" "Finite 30" "Finite 2" "Finite 500" "Finite 700"]
    by blast
qed


text \<open>
  C3 (as the claim states it, refuted): the client \<open>primeInput\<close> has a raw utilization
  percent of 5, which is at most 75, yet its after-optimization range is not the entry of
  the second table at the bumped tier: it is the current range. The code passes the
  three subscores to \<^verbatim>\<open>calculateOptimizedFundingRange\<close>, not the raw percents.
\<close>

theorem C3_raw_utilization_counterexample:
  "js_le (revolving_utilization_pct primeInput) (Finite 75)
   \<and> funding_range_after_optimization (calculateFundabilitySnapshot showNumber exampleNow primeInput)
       \<noteq> optimizedRangeTable
            (max 1 (fundability_tier_numeric (calculateFundabilitySnapshot showNumber exampleNow primeInput) - 1))
   \<and> funding_range_after_optimization (calculateFundabilitySnapshot showNumber exampleNow primeInput)
       = funding_range_now (calculateFundabilitySnapshot showNumber exampleNow primeInput)"
proof -
  have "js_le (revolving_utilization_pct primeInput) (Finite 75)"
    by (simp add: primeInput_def)
  moreover have "funding_range_after_optimization
      (calculateFundabilitySnapshot showNumber exampleNow primeInput) = calculateFundingRange 1"
    by (simp add: snapshot_range_optimized primeInput_tier primeInput_subscores
        calculateOptimizedFundingRange_def)
  moreover have "funding_range_now (calculateFundabilitySnapshot showNumber exampleNow primeInput)
      = calculateFundingRange 1"
    by (simp add: snapshot_range_now primeInput_tier)
  moreover have "calculateFundingRange 1 \<noteq> optimizedRangeTable (max 1 (1 - 1))"
    by (simp add: calculateFundingRange_def optimizedRangeTable_def)
  ultimately show ?thesis
    by (simp only: primeInput_tier simp_thms)
qed

text \<open>
  C3 (amended): for every input, the after-optimization funding range is the entry of
  the second four-entry table at the tier bumped up by one level (toward 1, floored at 1)
  if the utilization subscore is at most 75, or the DTI subscore is at most 70, or the
  inquiry subscore is at most 60; otherwise it is the same string as the current funding
  range.
\<close>

theorem C3_optimized_range_by_subscores:
  "funding_range_after_optimization (calculateFundabilitySnapshot toStr now inp) =
     (if utilization_subscore (subscores (calculateFundabilitySnapshot toStr now inp)) \<le> 75
         \<or> dti_subscore (subscores (calculateFundabilitySnapshot toStr now inp)) \<le> 70
         \<or> inquiry_subscore (subscores (calculateFundabilitySnapshot toStr now inp)) \<le> 60
      then optimizedRangeTable
             (max 1 (fundability_tier_numeric (calculateFundabilitySnapshot toStr now inp) - 1))
      else funding_range_now (calculateFundabilitySnapshot toStr now inp))"
  by (simp add: calculateFundabilitySnapshot_def Let_def calculateOptimizedFundingRange_def)

text \<open>
  C3 (amended) at the client \<open>weakInput\<close>, of tier 4 and utilization subscore 30: the
  after-optimization range is the entry of the second table at tier 3.
\<close>

theorem C3_optimized_range_by_subscores_witness:
  "utilization_subscore (subscores (calculateFundabilitySnapshot showNumber exampleNow weakInput)) \<le> 75
   \<and> funding_range_after_optimization (calculateFundabilitySnapshot showNumber exampleNow weakInput)
       = ''Moderate ($25K'' @ en_dash @ ''$75K)''"
proof -
  have u: "utilization_subscore (subscores (calculateFundabilitySnapshot showNumber exampleNow weakInput)) = 30"
    by (simp add: calculateFundabilitySnapshot_def Let_def weakInput_subscores)
  have "exactScore 15 30 25 35 45 (- 10) = 15"
    by code_simp
  then have "fundability_score (calculateFundabilitySnapshot showNumber exampleNow weakInput) = 15"
    by (simp only: snapshot_score weakInput_subscores)
  then have t: "fundability_tier_numeric (calculateFundabilitySnapshot showNumber exampleNow weakInput) = 4"
    by (simp add: snapshot_tier determineTier_def)
  show ?thesis
    using C3_optimized_range_by_subscores [of showNumber exampleNow weakInput]
    by (simp add: u t optimizedRangeTable_def)
qed

text \<open>
  C4 (as the claim states it, refuted): a revolving utilization percent of exactly 30
  does not give the utilization subscore 90. The test for 90 is \<open>utilization < 30\<close>,
  which 30 fails; the next test, \<open>utilization < 50\<close>, gives 75.
\<close>

theorem C4_utilization_30_not_90:
  "calculateUtilizationSubscore (Finite 30) \<noteq> 90"
  by (simp add: calculateUtilizationSubscore_def)

text \<open>
  C4 (amended): for every input whose revolving utilization percent is exactly 30, the
  utilization subscore is 75.
\<close>

theorem C4_utilization_30_is_75:
  "revolving_utilization_pct inp = Finite 30 \<Longrightarrow>
   utilization_subscore (subscores (calculateFundabilitySnapshot toStr now inp)) = 75"
  by (simp add: calculateFundabilitySnapshot_def Let_def calculateUtilizationSubscore_def)

text \<open>C4 (amended) at the client \<open>primeInput\<close> with the utilization percent set to 30.\<close>

theorem C4_utilization_30_is_75_witness:
  "revolving_utilization_pct (primeInput\<lparr>revolving_utilization_pct := Finite 30\<rparr>) = Finite 30
   \<and> utilization_subscore (subscores (calculateFundabilitySnapshot showNumber exampleNow
         (primeInput\<lparr>revolving_utilization_pct := Finite 30\<rparr>))) = 75"
proof -
  have h: "revolving_utilization_pct (primeInput\<lparr>revolving_utilization_pct := Finite 30\<rparr>) = Finite 30"
    by simp
  show ?thesis
    using h C4_utilization_30_is_75 [OF h, of showNumber exampleNow] by simp
qed

text \<open>
  C5: for every bankruptcy/major-event flag and every non-negative derogatory count
  \<open>n\<close>, the penalty points are \<open>-25\<close> for the flag plus \<open>-20\<close> when \<open>n \<ge> 3\<close> or \<open>-10\<close> when
  \<open>n\<close> is 1 or 2 (0 otherwise), the total raised to the floor \<open>-35\<close>; and whatever number
  the derogatory count \<open>d\<close> is, the penalty points are never below \<open>-35\<close> (and never above 0).
\<close>

theorem C5_penalty_points:
  "calculatePenaltyPoints bk (Finite (of_nat n)) =
     max (- 35) ((if bk then - 25 else 0) + (if 3 \<le> n then - 20 else if 1 \<le> n then - 10 else 0))
   \<and> - 35 \<le> calculatePenaltyPoints bk d
   \<and> calculatePenaltyPoints bk d \<le> 0"
  by (simp add: calculatePenaltyPoints_def Let_def)

text \<open>C5 with the flag set and five derogatory marks: \<open>-25 - 20\<close> is raised to \<open>-35\<close>.\<close>

theorem C5_penalty_points_witness:
  "calculatePenaltyPoints True (Finite (of_nat 5)) = - 35"
  using C5_penalty_points [of True 5 NaN] by simp

text \<open>
  C6: for every input, two calls of the scoring function, at the clock readings \<open>now1\<close>
  and \<open>now2\<close>, give snapshots that are equal in every field except
  \<^verbatim>\<open>meta.generated_at\<close>: the snapshot of the first call is that of the second with the
  timestamp replaced. The function reads nothing but its input and the clock.
\<close>

theorem C6_pure_but_for_timestamp:
  "calculateFundabilitySnapshot toStr now1 inp =
     (calculateFundabilitySnapshot toStr now2 inp)
       \<lparr>meta := (meta (calculateFundabilitySnapshot toStr now2 inp))\<lparr>generated_at := now1\<rparr>\<rparr>"
  by (simp add: calculateFundabilitySnapshot_def Let_def)

text \<open>C6 at the client \<open>primeInput\<close> and two different clock readings.\<close>

theorem C6_pure_but_for_timestamp_witness:
  "calculateFundabilitySnapshot showNumber ''2025-06-30T12:00:00.000Z'' primeInput =
     (calculateFundabilitySnapshot showNumber exampleNow primeInput)
       \<lparr>meta := (meta (calculateFundabilitySnapshot showNumber exampleNow primeInput))
          \<lparr>generated_at := ''2025-06-30T12:00:00.000Z''\<rparr>\<rparr>"
  using C6_pure_but_for_timestamp [of showNumber "''2025-06-30T12:00:00.000Z''" primeInput exampleNow]
  by simp

text \<open>
  C7 (as the claim states it, with the constraints of section 3, refuted): the validator
  does not return one entry for each violated constraint. A credit score of 700.5 is not
  an integer, and a home value that is the string \<^verbatim>\<open>abc\<close> is not a number, yet each of the
  two objects is accepted with no error; an empty first name is a string, and the email
  \<^verbatim>\<open>ada\<close> is a string, yet each of the two objects is rejected with one error.
\<close>

theorem C7_section_3_constraints_counterexample:
  "spec_violations fractionalScoreBody = [''credit_score'']
   \<and> validateInput fractionalScoreBody =
       \<lparr>valid = True, data = Some (primeInput\<lparr>credit_score := Some (Finite (1401 / 2))\<rparr>),
        errors = None\<rparr>
   \<and> spec_violations textHomeValueBody = [''estimated_home_value'']
   \<and> validateInput textHomeValueBody =
       \<lparr>valid = True, data = Some (primeInput\<lparr>estimated_home_value := JStr ''abc''\<rparr>),
        errors = None\<rparr>
   \<and> spec_violations blankNameBody = []
   \<and> validateInput blankNameBody =
       \<lparr>valid = False, data = None,
        errors = Some [''first_name is required and must be a string'']\<rparr>
   \<and> spec_violations plainEmailBody = []
   \<and> validateInput plainEmailBody =
       \<lparr>valid = False, data = None,
        errors = Some [''email is required and must be a valid email address'']\<rparr>"
  by code_simp

text \<open>
  C7 (amended): for every object in which no range-checked property is NaN, the
  validator returns either a validated record and no errors, when no constraint of the
  table \<open>constraints\<close> is violated, or no record and the list of the messages of all the
  violated constraints, one entry for each, in the order of the checks; the validated
  record holds the value of each property of the object, with 0 for an absent count of
  inquiries, age of the oldest account or count of derogatory marks, and false for an
  absent flag. For every object, one whose \<^verbatim>\<open>revolving_utilization_pct\<close> is 150 gets the
  message that names that field and the bounds 0 and 100, and one without
  \<^verbatim>\<open>primary_goal\<close> gets the message that lists the seven permitted goals.
\<close>

theorem C7_validator_collects_violations:
  "(not_NaN b \<longrightarrow>
      (violation_messages b = []
         \<and> (\<exists>d. validateInput b = \<lparr>valid = True, data = Some d, errors = None\<rparr>
               \<and> holds_values b d))
      \<or> (violation_messages b \<noteq> []
         \<and> validateInput b = \<lparr>valid = False, data = None, errors = Some (violation_messages b)\<rparr>))
   \<and> length (violation_messages b) = length (filter (violated b) constraints)
   \<and> (b ''revolving_utilization_pct'' = JNum (Finite 150) \<longrightarrow>
        (\<exists>es. validateInput b = \<lparr>valid = False, data = None, errors = Some es\<rparr>
          \<and> ''revolving_utilization_pct is required and must be between 0 and 100'' \<in> set es))
   \<and> (b ''primary_goal'' = JUndefined \<longrightarrow>
        (\<exists>es. validateInput b = \<lparr>valid = False, data = None, errors = Some es\<rparr>
          \<and> ''primary_goal is required and must be one of: startup_funding, business_funding, debt_consolidation, improve_credit, lower_utilization, raise_score_fast, not_sure'' \<in> set es))"
proof -
  have either: "(violation_messages b = []
         \<and> (\<exists>d. validateInput b = \<lparr>valid = True, data = Some d, errors = None\<rparr>
               \<and> holds_values b d))
      \<or> (violation_messages b \<noteq> []
         \<and> validateInput b = \<lparr>valid = False, data = None, errors = Some (violation_messages b)\<rparr>)"
    if n: "not_NaN b"
  proof (cases "violation_messages b = []")
    case True
    then show ?thesis using validateInput_accepts [OF n] by simp
  next
    case False
    then show ?thesis using validateInput_errors [OF n] by simp
  qed
  have count: "length (violation_messages b) = length (filter (violated b) constraints)"
    by (simp add: violation_messages_def)
  show ?thesis
    using either count utilization_150_rejected [of b] missing_goal_rejected [of b] by blast
qed

text \<open>
  C7 (amended) at an accepted object, whose validated record is \<open>minimalRecord\<close>, at the
  object with no property, which violates seven constraints, and at the client
  \<open>invalidInput\<close>, whose utilization percent is 150.
\<close>

theorem C7_validator_collects_violations_witness:
  "not_NaN minimalBody
   \<and> validateInput minimalBody = \<lparr>valid = True, data = Some minimalRecord, errors = None\<rparr>
   \<and> holds_values minimalBody minimalRecord
   \<and> not_NaN emptyBody
   \<and> emptyBody ''primary_goal'' = JUndefined
   \<and> validateInput emptyBody = \<lparr>valid = False, data = None, errors = Some
        [''first_name is required and must be a string'',
         ''last_name is required and must be a string'',
         ''email is required and must be a valid email address'',
         ''revolving_utilization_pct is required and must be between 0 and 100'',
         ''open_tradelines is required and must be a non-negative integer'',
         ''requested_amount is required and must be a positive number'',
         ''primary_goal is required and must be one of: startup_funding, business_funding, debt_consolidation, improve_credit, lower_utilization, raise_score_fast, not_sure'']\<rparr>
   \<and> violation_messages emptyBody = the (errors (validateInput emptyBody))
   \<and> to_body invalidInput ''revolving_utilization_pct'' = JNum (Finite 150)
   \<and> validateInput (to_body invalidInput) = \<lparr>valid = False, data = None, errors = Some
        [''revolving_utilization_pct is required and must be between 0 and 100'']\<rparr>"
proof -
  have n: "not_NaN minimalBody" "not_NaN emptyBody"
    by (simp_all add: not_NaN_def minimalBody_def emptyBody_def)
  have h: "emptyBody ''primary_goal'' = JUndefined"
    "to_body invalidInput ''revolving_utilization_pct'' = JNum (Finite 150)"
    by (simp_all add: emptyBody_def to_body_def invalidInput_def primeInput_def)
  show ?thesis
    using n h C7_validator_collects_violations [of minimalBody]
      C7_validator_collects_violations [of emptyBody]
      C7_validator_collects_violations [of "to_body invalidInput"]
    by (auto simp: minimalBody_accepted emptyBody_rejected invalidInput_errors)
qed

text \<open>
  C8 (the code at the failing input): the batch runner reads \<^verbatim>\<open>validationErrors.length\<close>
  of the object that the validator returns, which is \<^verbatim>\<open>undefined\<close>, so its test never
  holds: every client is passed to the scoring function and reported in the success
  list, and the failed list is empty, whatever the validator found.
\<close>

theorem C8_batch_never_reports_failure:
  "processBatch toStr clock clients =
     \<lparr>success = map (\<lambda>(k, c). Success (first_name c @ '' '' @ last_name c) (email c)
                                 (calculateFundabilitySnapshot toStr (clock k) c))
                    (zip [0 ..< length clients] clients),
      failed = [],
      summary = \<lparr>total = length clients, successful = length clients, failed_count = 0\<rparr>\<rparr>"
  by (simp add: processBatch_never_fails processClient_always_success)

text \<open>
  C8 at the batch of the one client \<open>invalidInput\<close>: the validator rejects it, and the
  batch runner reports its snapshot as a success.
\<close>

theorem C8_batch_never_reports_failure_witness:
  "validateInput (to_body invalidInput) =
     \<lparr>valid = False, data = None,
      errors = Some [''revolving_utilization_pct is required and must be between 0 and 100'']\<rparr>
   \<and> processBatch showNumber exampleClock [invalidInput] =
     \<lparr>success = [Success ''Ada Moss'' ''ada@example.com''
                   (calculateFundabilitySnapshot showNumber exampleNow invalidInput)],
      failed = [],
      summary = \<lparr>total = 1, successful = 1, failed_count = 0\<rparr>\<rparr>"
  using C8_batch_never_reports_failure [of showNumber exampleClock "[invalidInput]"]
  by (simp add: invalidInput_errors exampleClock_def) (simp add: invalidInput_def primeInput_def)

text \<open>
  C9: for every input, the aggregate score is at most 90: each of the five positive
  subscores is at most 95, their weights sum to \<open>0.95\<close>, so the weighted sum is at most
  \<open>90.25\<close>, which rounds to 90, and the penalty points are at most 0. The score 100 is not
  attained.
\<close>

theorem C9_score_at_most_90:
  "fundability_score (calculateFundabilitySnapshot toStr now inp) \<le> 90
   \<and> credit_score_subscore (subscores (calculateFundabilitySnapshot toStr now inp)) \<le> 95
   \<and> utilization_subscore (subscores (calculateFundabilitySnapshot toStr now inp)) \<le> 95
   \<and> dti_subscore (subscores (calculateFundabilitySnapshot toStr now inp)) \<le> 95
   \<and> inquiry_subscore (subscores (calculateFundabilitySnapshot toStr now inp)) \<le> 95
   \<and> depth_mix_subscore (subscores (calculateFundabilitySnapshot toStr now inp)) \<le> 95
   \<and> penalty_points (subscores (calculateFundabilitySnapshot toStr now inp)) \<le> 0"
proof -
  let ?c = "calculateCreditScoreSubscore (credit_score inp)"
  let ?u = "calculateUtilizationSubscore (revolving_utilization_pct inp)"
  let ?d = "calculateDTISubscore (dti_pct inp)"
  let ?i = "calculateInquirySubscore (inquiries_6m inp)"
  let ?m = "calculateDepthMixSubscore (oldest_account_years inp) (open_tradelines inp)"
  let ?p = "calculatePenaltyPoints (bk_or_major_event inp) (recent_derogs_24m inp)"
  have c: "?c \<le> 95" using credit_values [of "credit_score inp"] by auto
  have u: "?u \<le> 95" using utilization_values [of "revolving_utilization_pct inp"] by auto
  have d: "?d \<le> 95" using dti_values [of "dti_pct inp"] by auto
  have i: "?i \<le> 95" using inquiry_values [of "inquiries_6m inp"] by auto
  have m: "?m \<le> 95"
    using depthMix_values [of "oldest_account_years inp" "open_tradelines inp"] by auto
  have p: "?p \<le> 0"
    using penalty_values [of "bk_or_major_event inp" "recent_derogs_24m inp"] by auto
  have "exactScore ?c ?u ?d ?i ?m ?p \<le> exactScore 95 95 95 95 95 0"
    by (rule exactScore_mono) (fact c u d i m p)+
  also have "exactScore 95 95 95 95 95 0 = 90"
    by code_simp
  finally have "fundability_score (calculateFundabilitySnapshot toStr now inp) \<le> 90"
    by (simp only: snapshot_score)
  then show ?thesis
    using c u d i m p by (simp add: calculateFundabilitySnapshot_def Let_def)
qed

text \<open>C9 at the client \<open>primeInput\<close>, whose five subscores are all 95: its score is 90.\<close>

theorem C9_score_at_most_90_witness:
  "fundability_score (calculateFundabilitySnapshot showNumber exampleNow primeInput) = 90
   \<and> fundability_score (calculateFundabilitySnapshot showNumber exampleNow primeInput) \<le> 90"
  using C9_score_at_most_90 [of showNumber exampleNow primeInput] by (simp add: primeInput_score)

text \<open>
  C10: the client \<open>primeInput\<close>, which the validator accepts, has all five subscores at
  their maximum, no penalty and a utilization percent below 50, and its list of
  high-impact actions is empty; the client \<open>weakInput\<close> has five actions; for every input
  the list has at most five entries, while the lists of strengths and of risks are never
  empty.
\<close>

theorem C10_actions_may_be_empty:
  "high_impact_actions (calculateFundabilitySnapshot toStr now primeInput) = []
   \<and> validateInput (to_body primeInput) = \<lparr>valid = True, data = Some primeInput, errors = None\<rparr>
   \<and> length (high_impact_actions (calculateFundabilitySnapshot toStr now weakInput)) = 5
   \<and> length (high_impact_actions (calculateFundabilitySnapshot toStr now inp)) \<le> 5
   \<and> key_strengths (calculateFundabilitySnapshot toStr now inp) \<noteq> []
   \<and> key_risks (calculateFundabilitySnapshot toStr now inp) \<noteq> []"
proof -
  have "key_strengths (calculateFundabilitySnapshot toStr now inp) \<noteq> []"
    by (simp add: calculateFundabilitySnapshot_def Let_def strengths_not_empty)
  moreover have "key_risks (calculateFundabilitySnapshot toStr now inp) \<noteq> []"
    by (simp add: calculateFundabilitySnapshot_def Let_def risks_not_empty)
  moreover have "length (high_impact_actions (calculateFundabilitySnapshot toStr now inp)) \<le> 5"
    by (simp only: snapshot_actions actions_at_most_5)
  ultimately show ?thesis
    by (simp only: primeInput_actions primeInput_valid weakInput_actions simp_thms)
qed

text \<open>C10 at the client \<open>weakInput\<close>: five actions, one strength, three risks.\<close>

theorem C10_actions_may_be_empty_witness:
  "high_impact_actions (calculateFundabilitySnapshot showNumber exampleNow primeInput) = []
   \<and> length (high_impact_actions (calculateFundabilitySnapshot showNumber exampleNow weakInput)) = 5
   \<and> key_strengths (calculateFundabilitySnapshot showNumber exampleNow weakInput) \<noteq> []
   \<and> key_risks (calculateFundabilitySnapshot showNumber exampleNow weakInput) \<noteq> []"
  using C10_actions_may_be_empty [of showNumber exampleNow weakInput] by simp

end
